theory Spec2Isabelle
  imports Complex_Main
begin

section \<open>Conventions of the embedding\<close>

text \<open>
  The program is \<^verbatim>\<open>src/main.py\<close>. Python floats are idealised as HOL reals: the
  embedding follows the control flow and the formulas of the source exactly, and
  leaves binary rounding error and overflow out. Every exception the source can
  raise is a value of \<open>py_error\<close>, returned on the left of a sum. A Python value that
  may be \<^verbatim>\<open>None\<close> is an \<open>option\<close>. Where the program can compute a float that is no
  real number (NaN or an infinity from \<^verbatim>\<open>np.log\<close>, a complex power), the value has
  the type \<open>fval\<close> of the process results below, which keeps such values apart from
  the reals without raising anything the program does not raise.
\<close>

datatype py_error =
  IndexError | KeyError | ValueError | TypeError | ZeroDivisionError | NameError

text \<open>
  Python's truthiness test on a float that may be \<^verbatim>\<open>None\<close>
  (\<^verbatim>\<open>if T_sat_at_P and ...\<close>): \<^verbatim>\<open>None\<close> and \<^verbatim>\<open>0.0\<close> are false.
\<close>

fun truthy :: "real option \<Rightarrow> bool" where
  "truthy None = False"
| "truthy (Some y) = (y \<noteq> 0)"

text \<open>
  \<^verbatim>\<open>round(y, n)\<close>: the nearest multiple of \<open>10^-n\<close>, a tie going to the even
  neighbour.
\<close>

definition rint :: "real \<Rightarrow> int" where
  "rint y =
     (let f = \<lfloor>y\<rfloor> in
      if y - of_int f < 1 / 2 then f
      else if 1 / 2 < y - of_int f then f + 1
      else if even f then f else f + 1)"

definition py_round :: "real \<Rightarrow> nat \<Rightarrow> real" where
  "py_round y n = of_int (rint (y * 10 ^ n)) / 10 ^ n"

section \<open>The saturation table\<close>

text \<open>
  One row of \<^verbatim>\<open>static/saturated_water.csv\<close>, with the columns the program reads
  (field \<open>row_c\<close> is column \<^verbatim>\<open>c\<close>).
  The file itself is not part of the sources, so the loaded table \<^verbatim>\<open>water_df\<close> is a
  parameter \<open>df\<close> of every function that reads it; the empty list is the empty
  DataFrame left behind by a failed load.
\<close>

record sat_row =
  row_T_sat :: real
  row_P_bar :: real
  row_vf :: real
  row_vg :: real
  row_uf :: real
  row_ug :: real
  row_hf :: real
  row_hfg :: real
  row_sf :: real
  row_sg :: real

datatype column =
  Col_T_sat | Col_P_bar | Col_vf | Col_vg | Col_uf | Col_ug | Col_hf | Col_hfg | Col_sf | Col_sg

text \<open>\<^verbatim>\<open>row[prop_name]\<close>\<close>

fun col :: "column \<Rightarrow> sat_row \<Rightarrow> real" where
  "col Col_T_sat r = row_T_sat r"
| "col Col_P_bar r = row_P_bar r"
| "col Col_vf r = row_vf r"
| "col Col_vg r = row_vg r"
| "col Col_uf r = row_uf r"
| "col Col_ug r = row_ug r"
| "col Col_hf r = row_hf r"
| "col Col_hfg r = row_hfg r"
| "col Col_sf r = row_sf r"
| "col Col_sg r = row_sg r"

text \<open>
  \<^verbatim>\<open>Series.min()\<close> and \<^verbatim>\<open>Series.max()\<close>; the source calls them on a non-empty
  table only.
\<close>

fun col_min :: "real list \<Rightarrow> real" where
  "col_min [] = 0"
| "col_min (y # ys) = fold min ys y"

fun col_max :: "real list \<Rightarrow> real" where
  "col_max [] = 0"
| "col_max (y # ys) = fold max ys y"

text \<open>\<^verbatim>\<open>frame.iloc[-1]\<close> and \<^verbatim>\<open>frame.iloc[0]\<close> raise IndexError on an empty frame.\<close>

definition iloc_last :: "'a list \<Rightarrow> py_error + 'a" where
  "iloc_last rows = (if rows = [] then Inl IndexError else Inr (last rows))"

definition iloc_first :: "'a list \<Rightarrow> py_error + 'a" where
  "iloc_first rows = (if rows = [] then Inl IndexError else Inr (hd rows))"

text \<open>
  \<^verbatim>\<open>interpolate_water_property_by_T(T_C, prop_name)\<close>: the table is read in file
  order (this function does not sort it).
\<close>

definition interpolate_water_property_by_T ::
  "sat_row list \<Rightarrow> real \<Rightarrow> column \<Rightarrow> py_error + real option" where
  "interpolate_water_property_by_T df T_C prop_name =
     (if df = [] then Inr None
      else
        let T_min = col_min (map row_T_sat df);
            T_max = col_max (map row_T_sat df);
            T_C = (if T_C < T_min then T_min else if T_C > T_max then T_max else T_C)
        in case iloc_last (filter (\<lambda>r. row_T_sat r \<le> T_C) df) of
             Inl e \<Rightarrow> Inl e
           | Inr lower \<Rightarrow>
               (case iloc_first (filter (\<lambda>r. row_T_sat r \<ge> T_C) df) of
                  Inl e \<Rightarrow> Inl e
                | Inr upper \<Rightarrow>
                    if row_T_sat lower = row_T_sat upper then Inr (Some (col prop_name lower))
                    else
                      let T1 = row_T_sat lower; T2 = row_T_sat upper;
                          val1 = col prop_name lower; val2 = col prop_name upper
                      in Inr (Some (val1 + (val2 - val1) * (T_C - T1) / (T2 - T1)))))"

text \<open>
  \<^verbatim>\<open>get_tsat(P)\<close> returns the pair \<^verbatim>\<open>(Tsat, clamped)\<close>, and \<^verbatim>\<open>(None, False)\<close> on an
  empty table. \<^verbatim>\<open>sort_values\<close> is modelled by the stable \<open>sort_key\<close>.
\<close>

definition get_tsat :: "sat_row list \<Rightarrow> real \<Rightarrow> py_error + (real option \<times> bool)" where
  "get_tsat df P =
     (if df = [] then Inr (None, False)
      else
        let df_sorted = sort_key row_P_bar df;
            P_min = col_min (map row_P_bar df_sorted);
            P_max = col_max (map row_P_bar df_sorted);
            (P, clamped) =
              (if P < P_min then (P_min, True)
               else if P > P_max then (P_max, True) else (P, False))
        in case iloc_last (filter (\<lambda>r. row_P_bar r \<le> P) df_sorted) of
             Inl e \<Rightarrow> Inl e
           | Inr lower \<Rightarrow>
               (case iloc_first (filter (\<lambda>r. row_P_bar r \<ge> P) df_sorted) of
                  Inl e \<Rightarrow> Inl e
                | Inr upper \<Rightarrow>
                    let Tsat =
                      (if row_P_bar lower = row_P_bar upper then row_T_sat lower
                       else
                         let P1 = row_P_bar lower; P2 = row_P_bar upper;
                             T1 = row_T_sat lower; T2 = row_T_sat upper
                         in T1 + (T2 - T1) * (P - P1) / (P2 - P1))
                    in Inr (Some (py_round Tsat 5), clamped)))"

text \<open>\<^verbatim>\<open>get_psat(T_C)\<close>, the same lookup in the other direction.\<close>

definition get_psat :: "sat_row list \<Rightarrow> real \<Rightarrow> py_error + (real option \<times> bool)" where
  "get_psat df T_C =
     (if df = [] then Inr (None, False)
      else
        let df_sorted = sort_key row_T_sat df;
            T_min = col_min (map row_T_sat df_sorted);
            T_max = col_max (map row_T_sat df_sorted);
            (T_C, clamped) =
              (if T_C < T_min then (T_min, True)
               else if T_C > T_max then (T_max, True) else (T_C, False))
        in case iloc_last (filter (\<lambda>r. row_T_sat r \<le> T_C) df_sorted) of
             Inl e \<Rightarrow> Inl e
           | Inr lower \<Rightarrow>
               (case iloc_first (filter (\<lambda>r. row_T_sat r \<ge> T_C) df_sorted) of
                  Inl e \<Rightarrow> Inl e
                | Inr upper \<Rightarrow>
                    let Psat =
                      (if row_T_sat lower = row_T_sat upper then row_P_bar lower
                       else
                         let T1 = row_T_sat lower; T2 = row_T_sat upper;
                             P1 = row_P_bar lower; P2 = row_P_bar upper
                         in P1 + (P2 - P1) * (T_C - T1) / (T2 - T1))
                    in Inr (Some (py_round Psat 5), clamped)))"

section \<open>The high-accuracy property source\<close>

text \<open>
  The third-party package \<^verbatim>\<open>iapws\<close> is not code of this repository. It is a
  parameter: whether the import succeeded, and what \<^verbatim>\<open>IAPWS97(T=..., x=...)\<close> and
  \<^verbatim>\<open>IAPWS97(T=..., P=...)\<close> give, \<open>None\<close> standing for any exception raised while
  the object is built or its attributes are read.
\<close>

record iapws_point =
  pt_v :: real
  pt_u :: real
  pt_h :: real
  pt_s :: real
  pt_P :: real

record iapws_lib =
  IAPWS_AVAILABLE :: bool
  IAPWS97_Tx :: "real \<Rightarrow> real \<Rightarrow> iapws_point option"
  IAPWS97_TP :: "real \<Rightarrow> real \<Rightarrow> iapws_point option"

text \<open>
  The property dictionary both calculation paths return. Field \<open>w_k\<close> is the key
  \<^verbatim>\<open>"k"\<close>. The keys \<^verbatim>\<open>"T"\<close> and \<^verbatim>\<open>"P"\<close> are optional values because
  \<^verbatim>\<open>submit_next_stage\<close> later overwrites them with lookups that can be \<^verbatim>\<open>None\<close>.
\<close>

record water_props =
  w_T :: "real option"
  w_P :: "real option"
  w_P_sat :: real
  w_x :: real
  w_v :: real
  w_u :: real
  w_h :: real
  w_s :: real
  w_vf :: real
  w_vg :: real
  w_uf :: real
  w_ug :: real
  w_hf :: real
  w_hfg :: real
  w_sf :: real
  w_sg :: real
  w_source :: string

text \<open>
  The saturation references of \<^verbatim>\<open>calculate_water_properties_iapws\<close>, in the order
  \<^verbatim>\<open>(vf, vg, uf, ug, hf, hfg, sf, sg, P_sat_at_T)\<close>: the inner \<^verbatim>\<open>try\<close> block and its
  bare \<^verbatim>\<open>except\<close>, which puts zeros and the input pressure in their place.
\<close>

definition iapws_saturation ::
  "iapws_lib \<Rightarrow> real \<Rightarrow> real \<Rightarrow> real \<times> real \<times> real \<times> real \<times> real \<times> real \<times> real \<times> real \<times> real" where
  "iapws_saturation lib T_K P_bar =
     (case IAPWS97_Tx lib T_K 0 of
        None \<Rightarrow> (0, 0, 0, 0, 0, 0, 0, 0, P_bar)
      | Some sat_liquid \<Rightarrow>
          (case IAPWS97_Tx lib T_K 1 of
             None \<Rightarrow> (0, 0, 0, 0, 0, 0, 0, 0, P_bar)
           | Some sat_vapor \<Rightarrow>
               (pt_v sat_liquid, pt_v sat_vapor, pt_u sat_liquid, pt_u sat_vapor,
                pt_h sat_liquid, pt_h sat_vapor - pt_h sat_liquid,
                pt_s sat_liquid, pt_s sat_vapor, pt_P sat_liquid * 10)))"

text \<open>
  \<^verbatim>\<open>calculate_water_properties_iapws(T_C, P_bar, x)\<close>. The outer \<^verbatim>\<open>except Exception\<close>
  turns every failure of the main evaluation into \<^verbatim>\<open>None\<close>.
\<close>

definition calculate_water_properties_iapws ::
  "iapws_lib \<Rightarrow> real \<Rightarrow> real \<Rightarrow> real \<Rightarrow> water_props option" where
  "calculate_water_properties_iapws lib T_C P_bar x =
     (if \<not> IAPWS_AVAILABLE lib then None
      else
        let P_MPa = P_bar * (1 / 10);
            T_K = T_C + 27315 / 100
        in case (if 0 < x \<and> x < 1 then IAPWS97_Tx lib T_K x else IAPWS97_TP lib T_K P_MPa) of
             None \<Rightarrow> None
           | Some water \<Rightarrow>
               (case iapws_saturation lib T_K P_bar of
                  (vf, vg, uf, ug, hf, hfg, sf, sg, P_sat_at_T) \<Rightarrow>
                    let v = pt_v water; u = pt_u water; h = pt_h water; s = pt_s water;
                        actual_x =
                          (if 0 < x \<and> x < 1 then x
                           else if vf \<noteq> 0 \<and> vg \<noteq> 0 \<and> vg \<noteq> vf
                             then max 0 (min 1 ((v - vf) / (vg - vf)))
                           else x)
                    in Some \<lparr>w_T = Some T_C, w_P = Some P_bar, w_P_sat = P_sat_at_T,
                              w_x = py_round actual_x 4, w_v = v, w_u = u, w_h = h, w_s = s,
                              w_vf = vf, w_vg = vg, w_uf = uf, w_ug = ug, w_hf = hf,
                              w_hfg = hfg, w_sf = sf, w_sg = sg,
                              w_source = ''IAPWS-IF97''\<rparr>))"

section \<open>The property resolver\<close>

text \<open>Runs the lookups in order; the first exception wins.\<close>

fun sequence :: "(py_error + 'a) list \<Rightarrow> py_error + 'a list" where
  "sequence [] = Inr []"
| "sequence (Inl e # rs) = Inl e"
| "sequence (Inr y # rs) = (case sequence rs of Inl e \<Rightarrow> Inl e | Inr ys \<Rightarrow> Inr (y # ys))"

text \<open>
  The table path of \<^verbatim>\<open>calculate_water_properties\<close>: nine lookups at \<open>T_C\<close>, the test
  \<^verbatim>\<open>None in [...]\<close>, the mixing law and the choice of the reported pressure.
\<close>

definition csv_water_properties ::
  "sat_row list \<Rightarrow> real \<Rightarrow> real \<Rightarrow> real \<Rightarrow> py_error + water_props" where
  "csv_water_properties df T_C P_bar x =
     (case sequence (map (interpolate_water_property_by_T df T_C)
             [Col_vf, Col_vg, Col_uf, Col_ug, Col_hf, Col_hfg, Col_sf, Col_sg, Col_P_bar]) of
        Inl e \<Rightarrow> Inl e
      | Inr looked_up \<Rightarrow>
          if None \<in> set looked_up then Inl ValueError
          else
            let vf = the (looked_up ! 0); vg = the (looked_up ! 1);
                uf = the (looked_up ! 2); ug = the (looked_up ! 3);
                hf = the (looked_up ! 4); hfg = the (looked_up ! 5);
                sf = the (looked_up ! 6); sg = the (looked_up ! 7);
                P_sat_at_T_csv = the (looked_up ! 8);
                v = vf + x * (vg - vf);
                u = uf + x * (ug - uf);
                h = hf + x * hfg;
                s = sf + x * (sg - sf);
                display_P = (if 0 \<le> x \<and> x \<le> 1 then P_sat_at_T_csv else P_bar)
            in Inr \<lparr>w_T = Some T_C, w_P = Some display_P, w_P_sat = P_sat_at_T_csv,
                     w_x = x, w_v = v, w_u = u, w_h = h, w_s = s,
                     w_vf = vf, w_vg = vg, w_uf = uf, w_ug = ug, w_hf = hf,
                     w_hfg = hfg, w_sf = sf, w_sg = sg,
                     w_source = ''CSV Interpolation''\<rparr>)"

text \<open>\<^verbatim>\<open>T_sat_at_P and T_C > T_sat_at_P\<close>, and the same with \<^verbatim>\<open><\<close>.\<close>

definition above_sat :: "real option \<Rightarrow> real \<Rightarrow> bool" where
  "above_sat T_sat_at_P T_C = (truthy T_sat_at_P \<and> T_C > the T_sat_at_P)"

definition below_sat :: "real option \<Rightarrow> real \<Rightarrow> bool" where
  "below_sat T_sat_at_P T_C = (truthy T_sat_at_P \<and> T_C < the T_sat_at_P)"

text \<open>
  \<^verbatim>\<open>calculate_water_properties(T_C, P_bar, x)\<close>. The test \<^verbatim>\<open>"P_sat" not in iapws_result\<close>
  of the source never holds, the key being set by the only producer of the
  dictionary, so it has no branch here.
\<close>

definition calculate_water_properties ::
  "sat_row list \<Rightarrow> iapws_lib \<Rightarrow> real \<Rightarrow> real \<Rightarrow> real \<Rightarrow> py_error + water_props" where
  "calculate_water_properties df lib T_C P_bar x =
     (case get_tsat df P_bar of
        Inl e \<Rightarrow> Inl e
      | Inr (T_sat_at_P, _) \<Rightarrow>
          (case get_psat df T_C of
             Inl e \<Rightarrow> Inl e
           | Inr (P_sat_at_T, _) \<Rightarrow>
               let is_superheated = above_sat T_sat_at_P T_C;
                   is_subcooled = below_sat T_sat_at_P T_C
               in case (if IAPWS_AVAILABLE lib \<and> (is_superheated \<or> is_subcooled)
                        then calculate_water_properties_iapws lib T_C P_bar x else None) of
                    Some iapws_result \<Rightarrow>
                      Inr (if is_superheated then iapws_result\<lparr>w_x := 1\<rparr>
                           else if is_subcooled then iapws_result\<lparr>w_x := 0\<rparr>
                           else iapws_result)
                  | None \<Rightarrow> csv_water_properties df T_C P_bar x))"

section \<open>The in-memory store and the responses\<close>

text \<open>
  \<^verbatim>\<open>gas_data_store\<close> is a dictionary with the keys \<^verbatim>\<open>"latest_submission"\<close>,
  \<^verbatim>\<open>"state2_submission"\<close> and \<^verbatim>\<open>"process_info"\<close>; an absent key is \<open>None\<close>. The
  handlers take the store and return the new store with their response.
\<close>

text \<open>The record \<^verbatim>\<open>submit_gas\<close> stores for water (field \<open>s1_k\<close> is key \<^verbatim>\<open>"k"\<close>).\<close>

record water_submission =
  s1_T_original :: real
  s1_P_original :: real
  s1_T_sat_at_P :: "real option"
  s1_P_sat_at_T :: "real option"
  s1_T :: real
  s1_P :: "real option"
  s1_x :: real
  s1_phase :: string
  s1_v :: real
  s1_u :: real
  s1_h :: real
  s1_s :: real
  s1_vf :: real
  s1_vg :: real
  s1_uf :: real
  s1_ug :: real
  s1_hf :: real
  s1_hfg :: real
  s1_sf :: real
  s1_sg :: real
  s1_source :: string

text \<open>The record \<^verbatim>\<open>submit_gas\<close> stores for an ideal gas (field \<open>g_k\<close> is key \<^verbatim>\<open>"k"\<close>).\<close>

record gas_submission =
  g_gas_name :: string
  g_T :: real
  g_P :: real
  g_v :: real
  g_cp :: real
  g_cv :: real
  g_R :: real
  g_k :: real
  g_u :: real
  g_h :: real
  g_s :: real

datatype submission = Water_submission water_submission | Gas_submission gas_submission

text \<open>
  \<^verbatim>\<open>process_info\<close> as \<^verbatim>\<open>submit_process\<close> writes it: for water the two states (the
  values of state 1 come from \<^verbatim>\<open>dict.get\<close> and may be \<^verbatim>\<open>None\<close>), for a gas the
  ratios and the exponent as the request gave them.
\<close>

record state1_info =
  i1_T :: "real option"
  i1_P :: "real option"
  i1_v :: "real option"
  i1_u :: "real option"
  i1_h :: "real option"
  i1_s :: "real option"
  i1_x :: "real option"

record state2_info =
  i2_T :: real
  i2_P :: real
  i2_v :: real
  i2_u :: real
  i2_h :: real
  i2_s :: real
  i2_x :: real

record water_process =
  wp_process :: string
  wp_state1 :: state1_info
  wp_state2 :: state2_info

record gas_process =
  gp_process :: string
  gp_gas_name :: string
  gp_v_ratio :: "real option"
  gp_p_ratio :: "real option"
  gp_n_value :: "real option"

datatype process_info = Water_process water_process | Gas_process gas_process

record gas_data_store =
  latest_submission :: "submission option"
  state2_submission :: "water_props option"
  process_info :: "process_info option"

text \<open>
  A \<^verbatim>\<open>JSONResponse\<close>: success with its payload, or an error with its status code,
  its message and, when the message reports a caught exception, the exception.
\<close>

datatype 'a response = Success 'a | Failure nat string "py_error option"

section \<open>State 1: \<^verbatim>\<open>submit_gas\<close>\<close>

text \<open>\<^verbatim>\<open>str.lower()\<close> on ASCII letters.\<close>

fun py_lower_char :: "char \<Rightarrow> char" where
  "py_lower_char (Char b0 b1 b2 b3 b4 b5 b6 b7) =
     (let n = (of_char (Char b0 b1 b2 b3 b4 b5 b6 b7) :: nat)
      in if 65 \<le> n \<and> n \<le> 90 then Char b0 b1 b2 b3 b4 True b6 b7
         else Char b0 b1 b2 b3 b4 b5 b6 b7)"

definition py_lower :: "string \<Rightarrow> string" where
  "py_lower name = map py_lower_char name"

text \<open>
  The JSON body of \<^verbatim>\<open>/submit-gas\<close>, its numbers already read as floats; an absent key
  is \<open>None\<close>.
\<close>

record gas_request =
  rq_gas_name :: "string option"
  rq_T :: "real option"
  rq_P :: "real option"
  rq_x :: "real option"
  rq_v :: "real option"
  rq_cp :: "real option"
  rq_cv :: "real option"

text \<open>\<^verbatim>\<open>predefined_gases\<close>: the pair \<open>(R, k)\<close> of each named gas.\<close>

definition predefined_gases :: "string \<Rightarrow> (real \<times> real) option" where
  "predefined_gases name =
     (if name = ''air'' then Some (287 / 1000, 14 / 10)
      else if name = ''nitrogen'' then Some (2968 / 10000, 14 / 10)
      else if name = ''methane'' then Some (518 / 1000, 1299 / 1000)
      else if name = ''oxygen'' then Some (2598 / 10000, 1395 / 1000)
      else None)"

text \<open>The phase tag of state 1 (the \<^verbatim>\<open>if/elif\<close> chain of \<^verbatim>\<open>submit_gas\<close>).\<close>

definition state1_phase :: "real option \<Rightarrow> real \<Rightarrow> real \<Rightarrow> string" where
  "state1_phase T_sat_at_P T_input x =
     (if x = 0 \<or> below_sat T_sat_at_P T_input then ''subcooled_liquid''
      else if x = 1 \<or> above_sat T_sat_at_P T_input then ''superheated_vapor''
      else if 0 < x \<and> x < 1 then ''two_phase''
      else ''saturated'')"

text \<open>The handler's \<^verbatim>\<open>except Exception\<close>: status 400, the store as it was.\<close>

definition submission_failed :: "gas_data_store \<Rightarrow> py_error \<Rightarrow> unit response \<times> gas_data_store" where
  "submission_failed store e = (Failure 400 ''Submission failed'' (Some e), store)"

text \<open>The water branch of \<^verbatim>\<open>submit_gas\<close>.\<close>

definition submit_water ::
  "sat_row list \<Rightarrow> iapws_lib \<Rightarrow> gas_data_store \<Rightarrow> gas_request \<Rightarrow> unit response \<times> gas_data_store" where
  "submit_water df lib store data_json =
     (case rq_T data_json of
        None \<Rightarrow> submission_failed store KeyError
      | Some T_input \<Rightarrow>
     (case rq_P data_json of
        None \<Rightarrow> submission_failed store KeyError
      | Some P_input \<Rightarrow>
     (let x = (case rq_x data_json of None \<Rightarrow> 0 | Some x \<Rightarrow> x) in
      case get_tsat df P_input of
        Inl e \<Rightarrow> submission_failed store e
      | Inr (T_sat_at_P, _) \<Rightarrow>
     (case get_psat df T_input of
        Inl e \<Rightarrow> submission_failed store e
      | Inr (P_sat_at_T, _) \<Rightarrow>
     (case calculate_water_properties df lib T_input P_input x of
        Inl e \<Rightarrow> submission_failed store e
      | Inr water_props \<Rightarrow>
          (Success (),
           store\<lparr>latest_submission := Some (Water_submission
             \<lparr>s1_T_original = T_input, s1_P_original = P_input,
              s1_T_sat_at_P = T_sat_at_P, s1_P_sat_at_T = P_sat_at_T,
              s1_T = T_input, s1_P = w_P water_props, s1_x = w_x water_props,
              s1_phase = state1_phase T_sat_at_P T_input x,
              s1_v = py_round (w_v water_props) 6, s1_u = py_round (w_u water_props) 2,
              s1_h = py_round (w_h water_props) 2, s1_s = py_round (w_s water_props) 4,
              s1_vf = py_round (w_vf water_props) 6, s1_vg = py_round (w_vg water_props) 4,
              s1_uf = py_round (w_uf water_props) 2, s1_ug = py_round (w_ug water_props) 2,
              s1_hf = py_round (w_hf water_props) 2, s1_hfg = py_round (w_hfg water_props) 2,
              s1_sf = py_round (w_sf water_props) 4, s1_sg = py_round (w_sg water_props) 4,
              s1_source = w_source water_props\<rparr>)\<rparr>))))))"

text \<open>
  The gas constants of the ideal-gas branch: \<open>(cp, cv, R, k)\<close>, or the response
  that ends the request. For a custom gas the check of \<open>cp\<close> and \<open>cv\<close> comes first.
\<close>

definition gas_constants ::
  "string \<Rightarrow> real option \<Rightarrow> real option \<Rightarrow> unit response + (real \<times> real \<times> real \<times> real)" where
  "gas_constants gas_name cp cv =
     (if gas_name \<noteq> ''custom'' then
        (case predefined_gases gas_name of
           None \<Rightarrow> Inl (Failure 400 ''Submission failed'' (Some KeyError))
         | Some (R, k) \<Rightarrow>
             if k - 1 = 0 then Inl (Failure 400 ''Submission failed'' (Some ZeroDivisionError))
             else let cv = R / (k - 1); cp = k * cv in Inr (cp, cv, R, k))
      else
        (case (cp, cv) of
           (Some cp, Some cv) \<Rightarrow>
             if cp \<le> cv then Inl (Failure 400 ''Invalid cp/cv for custom gas'' None)
             else if cv = 0 then Inl (Failure 400 ''Submission failed'' (Some ZeroDivisionError))
             else Inr (cp, cv, cp - cv, cp / cv)
         | _ \<Rightarrow> Inl (Failure 400 ''Invalid cp/cv for custom gas'' None)))"

text \<open>The ideal-gas branch of \<^verbatim>\<open>submit_gas\<close>.\<close>

definition submit_ideal_gas ::
  "gas_data_store \<Rightarrow> string \<Rightarrow> gas_request \<Rightarrow> unit response \<times> gas_data_store" where
  "submit_ideal_gas store gas_name data_json =
     (case rq_P data_json of
        None \<Rightarrow> submission_failed store KeyError
      | Some P \<Rightarrow>
     (case rq_v data_json of
        None \<Rightarrow> submission_failed store KeyError
      | Some v \<Rightarrow>
     (case gas_constants gas_name (rq_cp data_json) (rq_cv data_json) of
        Inl rejected \<Rightarrow> (rejected, store)
      | Inr (cp, cv, R, k) \<Rightarrow>
          if R = 0 then submission_failed store ZeroDivisionError
          else
            let T = P * v / R; u = cv * T; h = cp * T; s = 0
            in (Success (),
                store\<lparr>latest_submission := Some (Gas_submission
                  \<lparr>g_gas_name = gas_name, g_T = py_round T 5, g_P = P, g_v = v,
                   g_cp = py_round cp 5, g_cv = py_round cv 5, g_R = py_round R 5,
                   g_k = py_round k 5, g_u = py_round u 2, g_h = py_round h 2,
                   g_s = py_round s 4\<rparr>)\<rparr>))))"

text \<open>\<^verbatim>\<open>submit_gas\<close>: the handler of \<^verbatim>\<open>/submit-gas\<close>.\<close>

definition submit_gas ::
  "sat_row list \<Rightarrow> iapws_lib \<Rightarrow> gas_data_store \<Rightarrow> gas_request \<Rightarrow> unit response \<times> gas_data_store" where
  "submit_gas df lib store data_json =
     (case rq_gas_name data_json of
        None \<Rightarrow> submission_failed store KeyError
      | Some name \<Rightarrow>
          let gas_name = py_lower name
          in if gas_name = ''water'' then submit_water df lib store data_json
             else submit_ideal_gas store gas_name data_json)"

section \<open>State 2: \<^verbatim>\<open>submit_next_stage\<close>\<close>

text \<open>The JSON body of \<^verbatim>\<open>/submit-next-stage\<close>.\<close>

record next_stage_request =
  ns_process :: "string option"
  ns_P :: "real option"
  ns_T :: "real option"
  ns_v :: "real option"
  ns_x :: "real option"

text \<open>\<^verbatim>\<open>a if a is not None else b\<close>\<close>

definition or_else :: "'a option \<Rightarrow> 'a option \<Rightarrow> 'a option" where
  "or_else a b = (case a of Some y \<Rightarrow> Some y | None \<Rightarrow> b)"

text \<open>
  The process constraints: \<open>(display_T, display_P, calc_T, calc_P)\<close>, all four
  \<^verbatim>\<open>None\<close> for a process name the handler does not know.
\<close>

definition process_constraints ::
  "string \<Rightarrow> real \<Rightarrow> real \<Rightarrow> real option \<Rightarrow> real option \<Rightarrow> real option \<Rightarrow> real option \<Rightarrow>
   real option \<times> real option \<times> real option \<times> real option" where
  "process_constraints process T_original P_original T_sat_at_P P_sat_at_T T_input P_input =
     (if process = ''Isothermal'' then
        (Some T_original, P_sat_at_T, Some T_original, or_else P_input P_sat_at_T)
      else if process = ''Isobaric'' then
        (T_sat_at_P, Some P_original, or_else T_input T_sat_at_P, Some P_original)
      else if process = ''Isochoric'' then
        (let calc_T = or_else T_input (Some T_original);
             calc_P = or_else P_input (Some P_original)
         in (calc_T, calc_P, calc_T, calc_P))
      else (None, None, None, None))"

text \<open>
  The quality before clamping. In the isobaric branch \<^verbatim>\<open>calc_P\<close> is \<^verbatim>\<open>P_original\<close>
  and in the isothermal branch \<^verbatim>\<open>calc_T\<close> is \<^verbatim>\<open>T_original\<close>, so the lookups are
  made at these.
\<close>

definition adjust_quality ::
  "sat_row list \<Rightarrow> string \<Rightarrow> real \<Rightarrow> real \<Rightarrow> real option \<Rightarrow> real option \<Rightarrow> real option \<Rightarrow>
   py_error + real" where
  "adjust_quality df process T_original P_original calc_T calc_P x_input =
     (let calc_x = (case x_input of Some x \<Rightarrow> x | None \<Rightarrow> 1 / 2) in
      if process = ''Isobaric'' \<and> calc_T \<noteq> None then
        (case get_tsat df P_original of
           Inl e \<Rightarrow> Inl e
         | Inr (T_sat_at_fixed_P, _) \<Rightarrow>
             if truthy T_sat_at_fixed_P then
               (if the calc_T > the T_sat_at_fixed_P then Inr 1
                else if the calc_T < the T_sat_at_fixed_P then Inr 0
                else Inr (case x_input of Some x \<Rightarrow> x | None \<Rightarrow> 1 / 2))
             else Inr calc_x)
      else if process = ''Isothermal'' \<and> calc_P \<noteq> None then
        (case get_psat df T_original of
           Inl e \<Rightarrow> Inl e
         | Inr (P_sat_at_fixed_T, _) \<Rightarrow>
             if truthy P_sat_at_fixed_T then
               (if the calc_P < the P_sat_at_fixed_T then Inr 1
                else if the calc_P > the P_sat_at_fixed_T then Inr 0
                else Inr (case x_input of Some x \<Rightarrow> x | None \<Rightarrow> 1 / 2))
             else Inr calc_x)
      else Inr calc_x)"

text \<open>The display phase of state 2.\<close>

definition state2_phase :: "real \<Rightarrow> string" where
  "state2_phase x =
     (if x = 0 then ''subcooled_liquid''
      else if x = 1 then ''superheated_vapor'' else ''two_phase'')"

text \<open>The outer \<^verbatim>\<open>except Exception\<close> of \<^verbatim>\<open>submit_next_stage\<close>.\<close>

definition update_failed :: "gas_data_store \<Rightarrow> py_error \<Rightarrow> string response \<times> gas_data_store" where
  "update_failed store e = (Failure 400 ''Dynamic update failed'' (Some e), store)"

text \<open>
  \<^verbatim>\<open>submit_next_stage\<close>. The success payload is reduced to the phase tag; its
  numbers are the stored record's, rounded. The record is stored before the payload
  is built, so a \<^verbatim>\<open>None\<close> display value fails in \<^verbatim>\<open>round\<close> after the write.
\<close>

definition submit_next_stage ::
  "sat_row list \<Rightarrow> iapws_lib \<Rightarrow> gas_data_store \<Rightarrow> next_stage_request \<Rightarrow>
   string response \<times> gas_data_store" where
  "submit_next_stage df lib store data =
     (case latest_submission store of
        Some (Water_submission state1) \<Rightarrow>
          (let T_original = s1_T_original state1;
               P_original = s1_P_original state1
           in case get_tsat df P_original of
                Inl e \<Rightarrow> update_failed store e
              | Inr (T_sat_at_P, _) \<Rightarrow>
          (case get_psat df T_original of
                Inl e \<Rightarrow> update_failed store e
              | Inr (P_sat_at_T, _) \<Rightarrow>
          (let process = (case ns_process data of None \<Rightarrow> ''Isobaric'' | Some p \<Rightarrow> p);
               x_input = ns_x data
           in case process_constraints process T_original P_original T_sat_at_P P_sat_at_T
                     (ns_T data) (ns_P data) of
                (display_T, display_P, calc_T, calc_P) \<Rightarrow>
          (case adjust_quality df process T_original P_original calc_T calc_P x_input of
                Inl e \<Rightarrow> update_failed store e
              | Inr calc_x \<Rightarrow>
          (let calc_x = max 0 (min 1 calc_x)
           in case calculate_water_properties df lib
                     (case calc_T of Some t \<Rightarrow> t | None \<Rightarrow> T_original)
                     (case calc_P of Some p \<Rightarrow> p | None \<Rightarrow> P_original) calc_x of
                Inl ValueError \<Rightarrow>
                  (Failure 400 ''Could not calculate properties'' (Some ValueError), store)
              | Inl e \<Rightarrow> update_failed store e
              | Inr state2_props \<Rightarrow>
                  let state2_props =
                        (if process = ''Isothermal''
                         then state2_props\<lparr>w_T := display_T, w_P := display_P\<rparr>
                         else if process = ''Isobaric''
                         then state2_props\<lparr>w_P := display_P, w_T := display_T\<rparr>
                         else state2_props);
                      phase = state2_phase (w_x state2_props);
                      store = store\<lparr>state2_submission := Some state2_props\<rparr>
                  in if w_T state2_props = None \<or> w_P state2_props = None
                     then update_failed store TypeError
                     else (Success phase, store))))))
      | _ \<Rightarrow> (Failure 400 ''State 1 data not found or is not water.'' None, store))"

section \<open>Process results\<close>

text \<open>Running one step after another; the first exception ends the calculation.\<close>

definition bind_err :: "py_error + 'a \<Rightarrow> ('a \<Rightarrow> py_error + 'b) \<Rightarrow> py_error + 'b" where
  "bind_err m f = (case m of Inl e \<Rightarrow> Inl e | Inr y \<Rightarrow> f y)"

text \<open>
  A number of the ideal-gas calculation: a real; or \<open>Special\<close>, a float that is NaN
  or an infinity; or \<open>Cplx\<close>, a value of Python's type \<^verbatim>\<open>complex\<close>. None of the three
  is an exception.
\<close>

datatype fval = Fin real | Special | Cplx

text \<open>
  \<^verbatim>\<open>+\<close>, \<^verbatim>\<open>-\<close> and \<^verbatim>\<open>*\<close>: with a complex operand the result is complex; otherwise
  with a NaN or an infinity among the operands it is again a NaN or an infinity.
\<close>

fun lift2 :: "(real \<Rightarrow> real \<Rightarrow> real) \<Rightarrow> fval \<Rightarrow> fval \<Rightarrow> fval" where
  "lift2 f (Fin a) (Fin b) = Fin (f a b)"
| "lift2 f Cplx b = Cplx"
| "lift2 f (Fin a) Cplx = Cplx"
| "lift2 f Special Cplx = Cplx"
| "lift2 f (Fin a) Special = Special"
| "lift2 f Special (Fin b) = Special"
| "lift2 f Special Special = Special"

definition fadd :: "fval \<Rightarrow> fval \<Rightarrow> fval" where
  "fadd a b = lift2 (+) a b"

definition fsub :: "fval \<Rightarrow> fval \<Rightarrow> fval" where
  "fsub a b = lift2 (-) a b"

definition fmul :: "fval \<Rightarrow> fval \<Rightarrow> fval" where
  "fmul a b = lift2 (*) a b"

text \<open>The quotient by a real divisor that is not zero.\<close>

fun fdiv :: "fval \<Rightarrow> real \<Rightarrow> fval" where
  "fdiv (Fin a) d = Fin (a / d)"
| "fdiv Special d = Special"
| "fdiv Cplx d = Cplx"

text \<open>\<^verbatim>\<open>round(y, n)\<close> leaves NaN and the infinities as they are.\<close>

fun fround :: "fval \<Rightarrow> nat \<Rightarrow> fval" where
  "fround (Fin a) n = Fin (py_round a n)"
| "fround Special n = Special"
| "fround Cplx n = Cplx"

text \<open>\<^verbatim>\<open>a / b\<close> on Python floats raises when the divisor is zero.\<close>

definition py_div :: "real \<Rightarrow> real \<Rightarrow> py_error + real" where
  "py_div a b = (if b = 0 then Inl ZeroDivisionError else Inr (a / b))"

text \<open>The same for a dividend that may be complex, NaN or infinite.\<close>

definition py_fdiv :: "fval \<Rightarrow> real \<Rightarrow> py_error + fval" where
  "py_fdiv a b = (if b = 0 then Inl ZeroDivisionError else Inr (fdiv a b))"

text \<open>
  \<^verbatim>\<open>b ** e\<close> on Python floats: a zero base with a negative exponent raises; a
  negative base gives a real for a whole exponent and a complex number, without
  raising, for a fractional one.
\<close>

definition py_pow :: "real \<Rightarrow> real \<Rightarrow> py_error + fval" where
  "py_pow b e =
     (if 0 < b then Inr (Fin (b powr e))
      else if b = 0 then
        (if 0 < e then Inr (Fin 0) else if e = 0 then Inr (Fin 1) else Inl ZeroDivisionError)
      else if e = of_int \<lfloor>e\<rfloor> then
        Inr (Fin ((if even \<lfloor>e\<rfloor> then 1 else - 1) * (\<bar>b\<bar> powr e)))
      else Inr Cplx)"

text \<open>
  \<^verbatim>\<open>np.log(y)\<close> raises nothing: it is \<open>-inf\<close> at zero and NaN below, and the complex
  logarithm on a complex number.
\<close>

fun np_log :: "fval \<Rightarrow> fval" where
  "np_log (Fin y) = (if 0 < y then Fin (ln y) else Special)"
| "np_log Special = Special"
| "np_log Cplx = Cplx"

text \<open>\<^verbatim>\<open>np.isclose(a, b)\<close> with its default tolerances.\<close>

definition isclose :: "real \<Rightarrow> real \<Rightarrow> bool" where
  "isclose a b = (\<bar>a - b\<bar> \<le> 1 / 10 ^ 8 + 1 / 10 ^ 5 * \<bar>b\<bar>)"

datatype process_type = isochoric | isobaric | isothermal | adiabatic | polytropic

text \<open>\<^verbatim>\<open>PROCESS_MAP.get(raw_process)\<close>\<close>

definition PROCESS_MAP :: "string \<Rightarrow> process_type option" where
  "PROCESS_MAP raw_process =
     (if raw_process = ''Constant Volume'' then Some isochoric
      else if raw_process = ''Constant Pressure'' then Some isobaric
      else if raw_process = ''Isothermal'' then Some isothermal
      else if raw_process = ''Adiabatic (n=k)'' then Some adiabatic
      else if raw_process = ''Polytropic'' then Some polytropic
      else None)"

text \<open>
  The state-2 block of \<^verbatim>\<open>get_results\<close>: \<open>(P2, T2, v2, exponent)\<close>. A ratio that is
  \<^verbatim>\<open>None\<close> raises TypeError where it is multiplied. The exponent of the isochoric
  branch is \<^verbatim>\<open>np.inf\<close>, written \<open>None\<close>; it is never read. The final \<^verbatim>\<open>else\<close> of the
  source is unreachable, \<^verbatim>\<open>PROCESS_MAP\<close> giving these five kinds only.
\<close>

definition second_state ::
  "process_type \<Rightarrow> real \<Rightarrow> real \<Rightarrow> real \<Rightarrow> real \<Rightarrow> real option \<Rightarrow> real option \<Rightarrow> real option \<Rightarrow>
   py_error + (fval \<times> fval \<times> real \<times> real option)" where
  "second_state kind P1 v1 T1 k v_ratio p_ratio n =
     (case v_ratio of
        None \<Rightarrow> Inl TypeError
      | Some v_ratio \<Rightarrow>
          let v2 = v1 * v_ratio in
          (case kind of
             isothermal \<Rightarrow>
               bind_err (py_div v1 v2) (\<lambda>q. Inr (Fin (P1 * q), Fin T1, v2, Some 1))
           | polytropic \<Rightarrow>
               (let exponent = (case n of Some n \<Rightarrow> n | None \<Rightarrow> 1) in
                bind_err (py_div v1 v2) (\<lambda>q.
                bind_err (py_pow q exponent) (\<lambda>a.
                bind_err (py_pow q (exponent - 1)) (\<lambda>b.
                  Inr (fmul (Fin P1) a, fmul (Fin T1) b, v2, Some exponent)))))
           | adiabatic \<Rightarrow>
               bind_err (py_div v1 v2) (\<lambda>q.
               bind_err (py_pow q k) (\<lambda>a.
               bind_err (py_pow q (k - 1)) (\<lambda>b.
                 Inr (fmul (Fin P1) a, fmul (Fin T1) b, v2, Some k))))
           | isochoric \<Rightarrow>
               (case p_ratio of
                  None \<Rightarrow> Inl TypeError
                | Some p_ratio \<Rightarrow> Inr (Fin (P1 * p_ratio), Fin (T1 * p_ratio), v1, None))
           | isobaric \<Rightarrow> Inr (Fin P1, Fin (T1 * v_ratio), v2, Some 0)))"

text \<open>The work block of \<^verbatim>\<open>get_results\<close>.\<close>

definition boundary_work ::
  "process_type \<Rightarrow> real \<Rightarrow> real \<Rightarrow> real \<Rightarrow> real \<Rightarrow> fval \<Rightarrow> real \<Rightarrow> real option \<Rightarrow>
   py_error + fval" where
  "boundary_work kind R P1 v1 T1 P2 v2 exponent =
     (case kind of
        isochoric \<Rightarrow> Inr (Fin 0)
      | isobaric \<Rightarrow> Inr (Fin (P1 * (v2 - v1)))
      | isothermal \<Rightarrow>
          bind_err (py_div v2 v1) (\<lambda>q. Inr (fmul (Fin (R * T1)) (np_log (Fin q))))
      | _ \<Rightarrow>
          if isclose (the exponent) 1 then
            bind_err (py_div v2 v1) (\<lambda>q. Inr (fmul (Fin (R * T1)) (np_log (Fin q))))
          else py_fdiv (fsub (fmul P2 (Fin v2)) (Fin (P1 * v1))) (1 - the exponent))"

text \<open>What \<^verbatim>\<open>get_results\<close> computes for an ideal gas, before the response rounds it.\<close>

record gas_result =
  gr_T1 :: fval
  gr_P1 :: fval
  gr_v1 :: fval
  gr_u1 :: fval
  gr_h1 :: fval
  gr_s1 :: fval
  gr_T2 :: fval
  gr_P2 :: fval
  gr_v2 :: fval
  gr_u2 :: fval
  gr_h2 :: fval
  gr_s2 :: fval
  gr_W :: fval
  gr_Q :: fval
  gr_delta_u :: fval
  gr_delta_h :: fval
  gr_delta_s :: fval

text \<open>
  The calculation of \<^verbatim>\<open>get_results\<close> from the stored gas and the stored ratios (the
  lines from \<^verbatim>\<open>v2 = v1 * v_ratio\<close> to \<^verbatim>\<open>s2 = s1 + delta_s\<close>).
\<close>

definition ideal_gas_process ::
  "gas_submission \<Rightarrow> process_type \<Rightarrow> real option \<Rightarrow> real option \<Rightarrow> real option \<Rightarrow>
   py_error + gas_result" where
  "ideal_gas_process gas kind v_ratio p_ratio n =
     (let cp = g_cp gas; cv = g_cv gas; R = g_R gas; k = g_k gas;
          T1 = g_T gas; P1 = g_P gas; v1 = g_v gas
      in bind_err (second_state kind P1 v1 T1 k v_ratio p_ratio n) (\<lambda>(P2, T2, v2, exponent).
         let u1 = cv * T1; u2 = fmul (Fin cv) T2; h1 = cp * T1; h2 = fmul (Fin cp) T2;
             delta_u = fsub u2 (Fin u1); delta_h = fsub h2 (Fin h1)
         in bind_err (boundary_work kind R P1 v1 T1 P2 v2 exponent) (\<lambda>W.
            let Q = fadd delta_u W in
            bind_err (py_fdiv T2 T1) (\<lambda>T_ratio.
            bind_err (py_fdiv P2 P1) (\<lambda>P_ratio.
            let delta_s = fsub (fmul (Fin cp) (np_log T_ratio)) (fmul (Fin R) (np_log P_ratio));
                s1 = fsub (fmul (Fin cp) (np_log (Fin T1))) (fmul (Fin R) (np_log (Fin P1)));
                s2 = fadd s1 delta_s
            in Inr \<lparr>gr_T1 = Fin T1, gr_P1 = Fin P1, gr_v1 = Fin v1, gr_u1 = Fin u1,
                     gr_h1 = Fin h1, gr_s1 = s1,
                     gr_T2 = T2, gr_P2 = P2, gr_v2 = Fin v2, gr_u2 = u2, gr_h2 = h2, gr_s2 = s2,
                     gr_W = W, gr_Q = Q, gr_delta_u = delta_u, gr_delta_h = delta_h,
                     gr_delta_s = delta_s\<rparr>)))))"

text \<open>The rounding of the response: five decimals for every number.\<close>

definition round_gas_result :: "gas_result \<Rightarrow> gas_result" where
  "round_gas_result r =
     \<lparr>gr_T1 = fround (gr_T1 r) 5, gr_P1 = fround (gr_P1 r) 5, gr_v1 = fround (gr_v1 r) 5,
      gr_u1 = fround (gr_u1 r) 5, gr_h1 = fround (gr_h1 r) 5, gr_s1 = fround (gr_s1 r) 5,
      gr_T2 = fround (gr_T2 r) 5, gr_P2 = fround (gr_P2 r) 5, gr_v2 = fround (gr_v2 r) 5,
      gr_u2 = fround (gr_u2 r) 5, gr_h2 = fround (gr_h2 r) 5, gr_s2 = fround (gr_s2 r) 5,
      gr_W = fround (gr_W r) 5, gr_Q = fround (gr_Q r) 5,
      gr_delta_u = fround (gr_delta_u r) 5, gr_delta_h = fround (gr_delta_h r) 5,
      gr_delta_s = fround (gr_delta_s r) 5\<rparr>"

text \<open>What \<^verbatim>\<open>get_water_results\<close> computes, before the response rounds it.\<close>

record water_result =
  wr_process_type :: string
  wr_W :: real
  wr_Q :: real
  wr_delta_u :: real
  wr_delta_h :: real
  wr_delta_s :: real

text \<open>The work formula of \<^verbatim>\<open>get_water_results\<close>, chosen by the process name.\<close>

definition water_work :: "string \<Rightarrow> real \<Rightarrow> real \<Rightarrow> real \<Rightarrow> real \<Rightarrow> real \<Rightarrow> real" where
  "water_work process_type P1 P2 v1 v2 delta_u =
     (if process_type = ''Constant Pressure'' then P1 * 100 * (v2 - v1)
      else if process_type = ''Constant Volume'' then 0
      else if process_type = ''Isothermal'' then
        (let avg_P = (P1 + P2) / 2 in avg_P * 100 * (v2 - v1))
      else if process_type = ''Adiabatic'' then - delta_u
      else 0)"

text \<open>\<^verbatim>\<open>float(state1.get(key, 0))\<close>: \<^verbatim>\<open>float(None)\<close> raises TypeError.\<close>

definition py_float :: "real option \<Rightarrow> py_error + real" where
  "py_float y = (case y of None \<Rightarrow> Inl TypeError | Some y \<Rightarrow> Inr y)"

text \<open>\<^verbatim>\<open>np.linspace(a, b, n)\<close>\<close>

definition linspace :: "real \<Rightarrow> real \<Rightarrow> nat \<Rightarrow> real list" where
  "linspace a b n = map (\<lambda>i. a + (b - a) * real i / real (n - 1)) [0..<n]"

text \<open>Whether \<^verbatim>\<open>get_water_results\<close> samples the saturation dome.\<close>

definition show_saturation :: "real \<Rightarrow> real \<Rightarrow> bool" where
  "show_saturation T1 T2 = ((T1 < 374 \<and> T2 < 374) \<and> min T1 T2 < 374)"

text \<open>
  \<^verbatim>\<open>P_sat_vals\<close>: the saturation pressures over the fifty temperatures of the dome
  sample, those that are \<^verbatim>\<open>None\<close> or zero left out.
\<close>

definition dome_pressures :: "sat_row list \<Rightarrow> real \<Rightarrow> real \<Rightarrow> py_error + real option list" where
  "dome_pressures df T1 T2 =
     (let T_min = min T1 T2; T_max = max T1 T2;
          T_range = linspace (max (1 / 100) (T_min - 5)) (min 374 (T_max + 5)) 50
      in case sequence (map (get_psat df) T_range) of
           Inl e \<Rightarrow> Inl e
         | Inr looked_up \<Rightarrow> Inr (filter truthy (map fst looked_up)))"

text \<open>
  \<^verbatim>\<open>get_water_results\<close>. Drawing and saving the two diagrams is left to
  \<^verbatim>\<open>matplotlib\<close> and is not modelled. What can end the request before the result is
  returned is: the divisions of the scaling report (ZeroDivisionError), and the
  last test \<^verbatim>\<open>show_saturation and valid_indices\<close>, which reads a name that is bound
  only when the dome sample found a pressure (NameError otherwise).
\<close>

definition get_water_results :: "sat_row list \<Rightarrow> gas_data_store \<Rightarrow> water_result response" where
  "get_water_results df store =
     (case process_info store of
        None \<Rightarrow> Failure 400 ''No water process data available. Run simulation first.'' None
      | Some (Gas_process _) \<Rightarrow> Failure 400 ''Incomplete state data.'' None
      | Some (Water_process info) \<Rightarrow>
          (let state1 = wp_state1 info; state2 = wp_state2 info in
           case sequence (map py_float
                  [i1_T state1, i1_P state1, i1_v state1, i1_u state1, i1_h state1,
                   i1_s state1, i1_x state1]) of
             Inl e \<Rightarrow> Failure 500 ''Failed to get water results'' (Some e)
           | Inr floats \<Rightarrow>
               let T1 = floats ! 0; P1 = floats ! 1; v1 = floats ! 2; u1 = floats ! 3;
                   h1 = floats ! 4; s1 = floats ! 5;
                   T2 = i2_T state2; P2 = i2_P state2; v2 = i2_v state2; u2 = i2_u state2;
                   h2 = i2_h state2; s2 = i2_s state2;
                   process_type = wp_process info;
                   delta_u = u2 - u1; delta_h = h2 - h1; delta_s = s2 - s1;
                   W = water_work process_type P1 P2 v1 v2 delta_u;
                   Q = delta_u + W;
                   result = \<lparr>wr_process_type = process_type, wr_W = py_round W 3,
                             wr_Q = py_round Q 3, wr_delta_u = py_round delta_u 3,
                             wr_delta_h = py_round delta_h 3,
                             wr_delta_s = py_round delta_s 5\<rparr>
               in if min v1 v2 = 0 \<or> min P1 P2 = 0 \<or> v1 = 0
                  then Failure 500 ''Failed to get water results'' (Some ZeroDivisionError)
                  else if show_saturation T1 T2 then
                    (case dome_pressures df T1 T2 of
                       Inl e \<Rightarrow> Failure 500 ''Failed to get water results'' (Some e)
                     | Inr P_sat_vals \<Rightarrow>
                         if P_sat_vals = []
                         then Failure 500 ''Failed to get water results'' (Some NameError)
                         else Success result)
                  else Success result))"

text \<open>
  The ideal-gas branch of \<^verbatim>\<open>get_results\<close>. After the calculation the handler draws
  the two diagrams and builds the response. A polytropic request without
  \<^verbatim>\<open>n_value\<close> fails while the curve of the diagram is computed
  (\<^verbatim>\<open>(v1 / v_vals) ** n\<close> with \<^verbatim>\<open>n = None\<close>), and a complex state 2 ends the request
  at the latest in the comparison \<^verbatim>\<open>T1 > T2\<close>, which raises TypeError. NaN and the
  infinities pass through: the handler returns them in its result.
\<close>

definition get_ideal_gas_results :: "gas_data_store \<Rightarrow> gas_process \<Rightarrow> gas_result response" where
  "get_ideal_gas_results store info =
     (case latest_submission store of
        None \<Rightarrow> Failure 400 ''No gas data found.'' None
      | Some submitted \<Rightarrow>
          (case PROCESS_MAP (gp_process info) of
             None \<Rightarrow> Failure 400 ''Unknown process type'' None
           | Some kind \<Rightarrow>
               (case submitted of
                  Water_submission _ \<Rightarrow> Failure 500 ''Failed to get results'' (Some KeyError)
                | Gas_submission gas \<Rightarrow>
                    (case ideal_gas_process gas kind (gp_v_ratio info) (gp_p_ratio info)
                            (gp_n_value info) of
                       Inl e \<Rightarrow> Failure 500 ''Failed to get results'' (Some e)
                     | Inr r \<Rightarrow>
                         if kind = polytropic \<and> gp_n_value info = None
                         then Failure 500 ''Failed to get results'' (Some TypeError)
                         else if gr_T2 r = Cplx \<or> gr_P2 r = Cplx
                         then Failure 500 ''Failed to get results'' (Some TypeError)
                         else Success (round_gas_result r)))))"

text \<open>\<^verbatim>\<open>get_results\<close>: the handler of \<^verbatim>\<open>/get-results\<close>.\<close>

definition get_results ::
  "sat_row list \<Rightarrow> gas_data_store \<Rightarrow> (water_result + gas_result) response" where
  "get_results df store =
     (case process_info store of
        None \<Rightarrow> Failure 400 ''No simulation data found. Please run a simulation first.'' None
      | Some (Water_process _) \<Rightarrow>
          (case get_water_results df store of
             Success r \<Rightarrow> Success (Inl r)
           | Failure code msg e \<Rightarrow> Failure code msg e)
      | Some (Gas_process info) \<Rightarrow>
          if py_lower (gp_gas_name info) = ''water'' then
            (case get_water_results df store of
               Success r \<Rightarrow> Success (Inl r)
             | Failure code msg e \<Rightarrow> Failure code msg e)
          else
            (case get_ideal_gas_results store info of
               Success r \<Rightarrow> Success (Inr r)
             | Failure code msg e \<Rightarrow> Failure code msg e))"

section \<open>Notation for the proofs\<close>

text \<open>The clamping step the three lookups share, as a function of the key column.\<close>

definition clamp_to :: "real list \<Rightarrow> real \<Rightarrow> real" where
  "clamp_to ys t =
     (if t < col_min ys then col_min ys else if t > col_max ys then col_max ys else t)"

text \<open>The number a lookup by temperature returns, when it returns one.\<close>

definition interp_val :: "sat_row list \<Rightarrow> real \<Rightarrow> column \<Rightarrow> real" where
  "interp_val df T_C c = the (projr (interpolate_water_property_by_T df T_C c))"

text \<open>A three-row table for evaluating the functions on concrete inputs.\<close>

definition sample_df :: "sat_row list" where
  "sample_df =
     [\<lparr>row_T_sat = 100, row_P_bar = 1, row_vf = 1 / 1000, row_vg = 17 / 10,
       row_uf = 419, row_ug = 2506, row_hf = 419, row_hfg = 2257,
       row_sf = 13 / 10, row_sg = 74 / 10\<rparr>,
      \<lparr>row_T_sat = 120, row_P_bar = 2, row_vf = 1 / 1000, row_vg = 9 / 10,
       row_uf = 504, row_ug = 2529, row_hf = 504, row_hfg = 2202,
       row_sf = 15 / 10, row_sg = 71 / 10\<rparr>,
      \<lparr>row_T_sat = 150, row_P_bar = 5, row_vf = 1 / 1000, row_vg = 4 / 10,
       row_uf = 632, row_ug = 2560, row_hf = 632, row_hfg = 2114,
       row_sf = 18 / 10, row_sg = 68 / 10\<rparr>]"

text \<open>A fixed result of the property library.\<close>

definition sample_point :: iapws_point where
  "sample_point = \<lparr>pt_v = 2, pt_u = 2600, pt_h = 2800, pt_s = 7, pt_P = 1 / 10\<rparr>"

text \<open>
  Four instances of the property library: the import failed; the library is there
  and every call raises; the library is there, evaluates a state given by
  temperature and pressure and raises on every state given by temperature and
  quality (as it does for the saturation references above the critical temperature);
  the library is there and returns one fixed point.
\<close>

definition iapws_unavailable :: iapws_lib where
  "iapws_unavailable =
     \<lparr>IAPWS_AVAILABLE = False, IAPWS97_Tx = (\<lambda>T_K x. None), IAPWS97_TP = (\<lambda>T_K P_MPa. None)\<rparr>"

definition iapws_raising :: iapws_lib where
  "iapws_raising =
     \<lparr>IAPWS_AVAILABLE = True, IAPWS97_Tx = (\<lambda>T_K x. None), IAPWS97_TP = (\<lambda>T_K P_MPa. None)\<rparr>"

definition iapws_no_saturation :: iapws_lib where
  "iapws_no_saturation =
     \<lparr>IAPWS_AVAILABLE = True, IAPWS97_Tx = (\<lambda>T_K x. None),
      IAPWS97_TP = (\<lambda>T_K P_MPa. Some sample_point)\<rparr>"

definition iapws_constant :: iapws_lib where
  "iapws_constant =
     \<lparr>IAPWS_AVAILABLE = True, IAPWS97_Tx = (\<lambda>T_K x. Some sample_point),
      IAPWS97_TP = (\<lambda>T_K P_MPa. Some sample_point)\<rparr>"

definition empty_store :: gas_data_store where
  "empty_store = \<lparr>latest_submission = None, state2_submission = None, process_info = None\<rparr>"

text \<open>A water request for state 1 with the given temperature, pressure and quality.\<close>

definition water_request :: "real \<Rightarrow> real \<Rightarrow> real \<Rightarrow> gas_request" where
  "water_request T_input P_input x =
     \<lparr>rq_gas_name = Some ''water'', rq_T = Some T_input, rq_P = Some P_input, rq_x = Some x,
      rq_v = None, rq_cp = None, rq_cv = None\<rparr>"

text \<open>The phase tag and the quality of the water record stored for state 1, if any.\<close>

definition stored_phase :: "gas_data_store \<Rightarrow> string option" where
  "stored_phase store =
     (case latest_submission store of
        Some (Water_submission s) \<Rightarrow> Some (s1_phase s)
      | _ \<Rightarrow> None)"

definition stored_quality :: "gas_data_store \<Rightarrow> real option" where
  "stored_quality store =
     (case latest_submission store of
        Some (Water_submission s) \<Rightarrow> Some (s1_x s)
      | _ \<Rightarrow> None)"

text \<open>
  A stored water process with the given process name, both states at the given
  temperature, for evaluating the results.
\<close>

definition sample_water_process :: "string \<Rightarrow> real \<Rightarrow> gas_data_store" where
  "sample_water_process name T =
     \<lparr>latest_submission = None, state2_submission = None,
      process_info = Some (Water_process
        \<lparr>wp_process = name,
         wp_state1 = \<lparr>i1_T = Some T, i1_P = Some 1, i1_v = Some 1, i1_u = Some 2000,
                      i1_h = Some 2100, i1_s = Some 6, i1_x = Some (1 / 2)\<rparr>,
         wp_state2 = \<lparr>i2_T = T, i2_P = 3, i2_v = 2, i2_u = 2500,
                      i2_h = 2700, i2_s = 7, i2_x = 1\<rparr>\<rparr>)\<rparr>"

text \<open>
  Two stored gases: the custom gas with \<open>cp = 1 + 2^-17\<close> and \<open>cv = 1\<close> at 100 kPa and
  1 m3/kg (numbers that binary floats hold exactly), and air at 100 kPa and
  0.861 m3/kg, each as \<open>submit_gas\<close> stores it.
\<close>

definition near_unit_gas :: gas_submission where
  "near_unit_gas =
     \<lparr>g_gas_name = ''custom'', g_T = 13107200, g_P = 100, g_v = 1,
      g_cp = 100001 / 100000, g_cv = 1, g_R = 1 / 100000, g_k = 100001 / 100000,
      g_u = 13107200, g_h = 13107300, g_s = 0\<rparr>"

definition custom_request :: "real \<Rightarrow> real \<Rightarrow> real \<Rightarrow> real \<Rightarrow> gas_request" where
  "custom_request P v cp cv =
     \<lparr>rq_gas_name = Some ''custom'', rq_T = None, rq_P = Some P, rq_x = None,
      rq_v = Some v, rq_cp = Some cp, rq_cv = Some cv\<rparr>"

definition sample_air :: gas_submission where
  "sample_air =
     \<lparr>g_gas_name = ''air'', g_T = 300, g_P = 100, g_v = 861 / 1000,
      g_cp = 10045 / 10000, g_cv = 7175 / 10000, g_R = 287 / 1000, g_k = 14 / 10,
      g_u = 21525 / 100, g_h = 30135 / 100, g_s = 0\<rparr>"

text \<open>
  Linear interpolation between two points, and with it the saturation temperature
  \<open>get_tsat\<close> computes, before rounding, from a table sorted by pressure.
\<close>

definition lerp :: "real \<Rightarrow> real \<Rightarrow> real \<Rightarrow> real \<Rightarrow> real \<Rightarrow> real" where
  "lerp k1 y1 k2 y2 p = (if k1 = k2 then y1 else y1 + (y2 - y1) * (p - k1) / (k2 - k1))"

definition tsat_raw :: "sat_row list \<Rightarrow> real \<Rightarrow> real" where
  "tsat_raw s p =
     (let lower = last (filter (\<lambda>r. row_P_bar r \<le> p) s);
          upper = hd (filter (\<lambda>r. row_P_bar r \<ge> p) s)
      in lerp (row_P_bar lower) (row_T_sat lower) (row_P_bar upper) (row_T_sat upper) p)"

section \<open>Properties of the table lookups\<close>

lemma col_min_eq_Min: "ys \<noteq> [] \<Longrightarrow> col_min ys = Min (set ys)"
  by (cases ys) (simp_all only: col_min.simps Min.set_eq_fold, simp)

lemma col_max_eq_Max: "ys \<noteq> [] \<Longrightarrow> col_max ys = Max (set ys)"
  by (cases ys) (simp_all only: col_max.simps Max.set_eq_fold, simp)

lemma col_min_in: "ys \<noteq> [] \<Longrightarrow> col_min ys \<in> set ys"
  by (simp add: col_min_eq_Min)

lemma col_max_in: "ys \<noteq> [] \<Longrightarrow> col_max ys \<in> set ys"
  by (simp add: col_max_eq_Max)

lemma col_min_le: "y \<in> set ys \<Longrightarrow> col_min ys \<le> y"
  by (cases "ys = []") (simp_all add: col_min_eq_Min)

lemma col_max_ge: "y \<in> set ys \<Longrightarrow> y \<le> col_max ys"
  by (cases "ys = []") (simp_all add: col_max_eq_Max)

lemma col_min_le_max: "ys \<noteq> [] \<Longrightarrow> col_min ys \<le> col_max ys"
  using col_min_in col_max_ge by blast

lemma clamp_to_bounds: "ys \<noteq> [] \<Longrightarrow> col_min ys \<le> clamp_to ys t \<and> clamp_to ys t \<le> col_max ys"
  using col_min_le_max[of ys] by (auto simp: clamp_to_def)

lemma filter_le_nonempty:
  assumes "df \<noteq> []" "col_min (map f df) \<le> t"
  shows "filter (\<lambda>r. f r \<le> t) df \<noteq> []"
proof -
  from assms(1) have "col_min (map f df) \<in> set (map f df)" by (intro col_min_in) simp
  then obtain r where "r \<in> set df" "f r = col_min (map f df)" by auto
  with assms(2) have "\<exists>r\<in>set df. f r \<le> t" by (intro bexI[of _ r]) simp_all
  then show ?thesis by (simp add: filter_empty_conv)
qed

lemma filter_ge_nonempty:
  assumes "df \<noteq> []" "t \<le> col_max (map f df)"
  shows "filter (\<lambda>r. f r \<ge> t) df \<noteq> []"
proof -
  from assms(1) have "col_max (map f df) \<in> set (map f df)" by (intro col_max_in) simp
  then obtain r where "r \<in> set df" "f r = col_max (map f df)" by auto
  with assms(2) have "\<exists>r\<in>set df. t \<le> f r" by (intro bexI[of _ r]) simp_all
  then show ?thesis by (simp add: filter_empty_conv)
qed

lemma interpolate_total:
  assumes "df \<noteq> []"
  shows "\<exists>y. interpolate_water_property_by_T df T_C c = Inr (Some y)"
proof -
  let ?t = "clamp_to (map row_T_sat df) T_C"
  have b: "col_min (map row_T_sat df) \<le> ?t" "?t \<le> col_max (map row_T_sat df)"
    using clamp_to_bounds[of "map row_T_sat df" T_C] assms by auto
  have 1: "filter (\<lambda>r. row_T_sat r \<le> ?t) df \<noteq> []" using filter_le_nonempty[OF assms b(1)] .
  have 2: "filter (\<lambda>r. row_T_sat r \<ge> ?t) df \<noteq> []" using filter_ge_nonempty[OF assms b(2)] .
  show ?thesis
    using assms 1 2
    by (simp add: interpolate_water_property_by_T_def Let_def iloc_last_def iloc_first_def clamp_to_def)
qed


lemma sequence_all_Inr:
  "\<forall>r\<in>set rs. \<exists>y. r = Inr y \<Longrightarrow> sequence rs = Inr (map projr rs)"
  by (induction rs) auto

lemma interpolate_eq_interp_val:
  "df \<noteq> [] \<Longrightarrow> interpolate_water_property_by_T df T_C c = Inr (Some (interp_val df T_C c))"
  using interpolate_total[of df T_C c] by (auto simp: interp_val_def)

lemma csv_water_properties_total:
  assumes "df \<noteq> []"
  shows "csv_water_properties df T_C P_bar x =
    Inr \<lparr>w_T = Some T_C,
         w_P = Some (if 0 \<le> x \<and> x \<le> 1 then interp_val df T_C Col_P_bar else P_bar),
         w_P_sat = interp_val df T_C Col_P_bar, w_x = x,
         w_v = interp_val df T_C Col_vf + x * (interp_val df T_C Col_vg - interp_val df T_C Col_vf),
         w_u = interp_val df T_C Col_uf + x * (interp_val df T_C Col_ug - interp_val df T_C Col_uf),
         w_h = interp_val df T_C Col_hf + x * interp_val df T_C Col_hfg,
         w_s = interp_val df T_C Col_sf + x * (interp_val df T_C Col_sg - interp_val df T_C Col_sf),
         w_vf = interp_val df T_C Col_vf, w_vg = interp_val df T_C Col_vg,
         w_uf = interp_val df T_C Col_uf, w_ug = interp_val df T_C Col_ug,
         w_hf = interp_val df T_C Col_hf, w_hfg = interp_val df T_C Col_hfg,
         w_sf = interp_val df T_C Col_sf, w_sg = interp_val df T_C Col_sg,
         w_source = ''CSV Interpolation''\<rparr>"
  by (simp add: csv_water_properties_def interpolate_eq_interp_val[OF assms] Let_def)

lemma interpolate_below:
  assumes "df \<noteq> []" "T_C < col_min (map row_T_sat df)"
  shows "\<exists>r\<in>set df. row_T_sat r = col_min (map row_T_sat df) \<and>
           interpolate_water_property_by_T df T_C c = Inr (Some (col c r))"
proof -
  let ?m = "col_min (map row_T_sat df)"
  let ?lo = "filter (\<lambda>r. row_T_sat r \<le> ?m) df"
  let ?hi = "filter (\<lambda>r. row_T_sat r \<ge> ?m) df"
  have lo: "?lo \<noteq> []" by (rule filter_le_nonempty[OF assms(1)]) simp
  have hi: "?hi \<noteq> []"
    by (rule filter_ge_nonempty[OF assms(1)]) (rule col_min_le_max, simp add: assms(1))
  have "last ?lo \<in> set ?lo" using lo by (rule last_in_set)
  then have l: "last ?lo \<in> set df" "row_T_sat (last ?lo) \<le> ?m" by auto
  have "?m \<le> row_T_sat (last ?lo)" using l(1) by (intro col_min_le) simp
  with l(2) have eq: "row_T_sat (last ?lo) = ?m" by simp
  have res: "interpolate_water_property_by_T df T_C c = Inr (Some (col c (last ?lo)))"
    using assms lo hi eq
    by (simp add: interpolate_water_property_by_T_def Let_def iloc_last_def iloc_first_def)
  show ?thesis using l(1) eq res by blast
qed

lemma interpolate_above:
  assumes "df \<noteq> []" "col_max (map row_T_sat df) < T_C"
  shows "\<exists>r\<in>set df. row_T_sat r = col_max (map row_T_sat df) \<and>
           interpolate_water_property_by_T df T_C c = Inr (Some (col c r))"
proof -
  let ?M = "col_max (map row_T_sat df)"
  let ?lo = "filter (\<lambda>r. row_T_sat r \<le> ?M) df"
  let ?hi = "filter (\<lambda>r. row_T_sat r \<ge> ?M) df"
  have mM: "col_min (map row_T_sat df) \<le> ?M" by (rule col_min_le_max) (simp add: assms(1))
  then have nlt: "\<not> T_C < col_min (map row_T_sat df)" using assms(2) by simp
  have lo: "?lo \<noteq> []" by (rule filter_le_nonempty[OF assms(1) mM])
  have hi: "?hi \<noteq> []" by (rule filter_ge_nonempty[OF assms(1)]) simp
  have "hd ?hi \<in> set ?hi" using hi by (rule hd_in_set)
  then have h: "hd ?hi \<in> set df" "?M \<le> row_T_sat (hd ?hi)" by auto
  have "row_T_sat (hd ?hi) \<le> ?M" using h(1) by (intro col_max_ge) simp
  with h(2) have eqh: "row_T_sat (hd ?hi) = ?M" by simp
  have "last ?lo \<in> set ?lo" using lo by (rule last_in_set)
  then have l: "last ?lo \<in> set df" by auto
  show ?thesis
  proof (cases "row_T_sat (last ?lo) = ?M")
    case True
    then have "interpolate_water_property_by_T df T_C c = Inr (Some (col c (last ?lo)))"
      using assms lo hi eqh nlt
      by (simp add: interpolate_water_property_by_T_def Let_def iloc_last_def iloc_first_def)
    with True l show ?thesis by blast
  next
    case False
    then have "interpolate_water_property_by_T df T_C c = Inr (Some (col c (hd ?hi)))"
      using assms lo hi eqh nlt
      by (simp add: interpolate_water_property_by_T_def Let_def iloc_last_def iloc_first_def)
    with eqh h(1) show ?thesis by blast
  qed
qed

text \<open>
  Claim C10. For a non-empty table \<open>interpolate_water_property_by_T\<close> raises nothing and
  never returns \<^verbatim>\<open>None\<close>, whatever the temperature. A temperature below the smallest
  \<^verbatim>\<open>T_sat\<close> of the table gives the value of a row at that smallest \<^verbatim>\<open>T_sat\<close>, one
  above the largest gives the value of a row at the largest; the result carries
  no flag. Hence the table path of the resolver returns a record for every
  temperature.
\<close>

theorem interpolate_water_property_by_T_total:
  assumes "df \<noteq> []"
  shows "\<exists>y. interpolate_water_property_by_T df T_C c = Inr (Some y) \<and>
           (T_C < col_min (map row_T_sat df) \<longrightarrow>
              (\<exists>r\<in>set df. row_T_sat r = col_min (map row_T_sat df) \<and> y = col c r)) \<and>
           (col_max (map row_T_sat df) < T_C \<longrightarrow>
              (\<exists>r\<in>set df. row_T_sat r = col_max (map row_T_sat df) \<and> y = col c r)) \<and>
           (\<exists>w. csv_water_properties df T_C P_bar x = Inr w)"
proof -
  obtain y where y: "interpolate_water_property_by_T df T_C c = Inr (Some y)"
    using interpolate_total[OF assms] by blast
  have "\<exists>r\<in>set df. row_T_sat r = col_min (map row_T_sat df) \<and> y = col c r"
    if "T_C < col_min (map row_T_sat df)"
    using interpolate_below[OF assms that, of c] y by auto
  moreover have "\<exists>r\<in>set df. row_T_sat r = col_max (map row_T_sat df) \<and> y = col c r"
    if "col_max (map row_T_sat df) < T_C"
    using interpolate_above[OF assms that, of c] y by auto
  moreover have "\<exists>w. csv_water_properties df T_C P_bar x = Inr w"
    using csv_water_properties_total[OF assms] by blast
  ultimately show ?thesis using y by blast
qed

theorem interpolate_water_property_by_T_total_witness:
  "sample_df \<noteq> [] \<and> 20 < col_min (map row_T_sat sample_df) \<and>
   col_max (map row_T_sat sample_df) < 400 \<and>
   interpolate_water_property_by_T sample_df 20 Col_vg = Inr (Some (17 / 10)) \<and>
   interpolate_water_property_by_T sample_df 400 Col_vg = Inr (Some (4 / 10)) \<and>
   (\<exists>w. csv_water_properties sample_df 400 1 (1 / 2) = Inr w)"
  using interpolate_water_property_by_T_total [of sample_df 400 Col_vg 1 "1 / 2"]
  by (simp add: sample_df_def interpolate_water_property_by_T_def iloc_last_def iloc_first_def)

lemma get_tsat_closed_form:
  assumes "df \<noteq> []"
  shows "get_tsat df P =
    (let s = sort_key row_P_bar df;
         P' = clamp_to (map row_P_bar s) P;
         lower = last (filter (\<lambda>r. row_P_bar r \<le> P') s);
         upper = hd (filter (\<lambda>r. row_P_bar r \<ge> P') s)
     in Inr (Some (py_round
          (if row_P_bar lower = row_P_bar upper then row_T_sat lower
           else row_T_sat lower + (row_T_sat upper - row_T_sat lower) * (P' - row_P_bar lower)
                  / (row_P_bar upper - row_P_bar lower)) 5),
          P < col_min (map row_P_bar s) \<or> P > col_max (map row_P_bar s)))"
proof -
  let ?s = "sort_key row_P_bar df"
  have ne: "?s \<noteq> []" using assms by (metis length_sort length_0_conv)
  let ?t = "clamp_to (map row_P_bar ?s) P"
  have b: "col_min (map row_P_bar ?s) \<le> ?t" "?t \<le> col_max (map row_P_bar ?s)"
    using clamp_to_bounds[of "map row_P_bar ?s" P] ne by auto
  have 1: "filter (\<lambda>r. row_P_bar r \<le> ?t) ?s \<noteq> []" using filter_le_nonempty[OF ne b(1)] .
  have 2: "filter (\<lambda>r. row_P_bar r \<ge> ?t) ?s \<noteq> []" using filter_ge_nonempty[OF ne b(2)] .
  have mm: "col_min (map row_P_bar ?s) \<le> col_max (map row_P_bar ?s)"
    using ne by (intro col_min_le_max) simp
  consider (lo) "P < col_min (map row_P_bar ?s)"
    | (hi) "\<not> P < col_min (map row_P_bar ?s)" "P > col_max (map row_P_bar ?s)"
    | (mid) "\<not> P < col_min (map row_P_bar ?s)" "\<not> P > col_max (map row_P_bar ?s)"
    by blast
  then show ?thesis
  proof cases
    case lo
    then have t: "?t = col_min (map row_P_bar ?s)" by (simp add: clamp_to_def)
    show ?thesis using assms lo 1 2 unfolding t
      by (simp add: get_tsat_def Let_def iloc_last_def iloc_first_def t)
  next
    case hi
    then have t: "?t = col_max (map row_P_bar ?s)" by (simp add: clamp_to_def)
    show ?thesis using assms hi 1 2 unfolding t
      by (simp add: get_tsat_def Let_def iloc_last_def iloc_first_def t)
  next
    case mid
    then have t: "?t = P" by (simp add: clamp_to_def)
    show ?thesis using assms mid 1 2 unfolding t
      by (simp add: get_tsat_def Let_def iloc_last_def iloc_first_def t)
  qed
qed

lemma get_psat_closed_form:
  assumes "df \<noteq> []"
  shows "get_psat df T_C =
    (let s = sort_key row_T_sat df;
         T' = clamp_to (map row_T_sat s) T_C;
         lower = last (filter (\<lambda>r. row_T_sat r \<le> T') s);
         upper = hd (filter (\<lambda>r. row_T_sat r \<ge> T') s)
     in Inr (Some (py_round
          (if row_T_sat lower = row_T_sat upper then row_P_bar lower
           else row_P_bar lower + (row_P_bar upper - row_P_bar lower) * (T' - row_T_sat lower)
                  / (row_T_sat upper - row_T_sat lower)) 5),
          T_C < col_min (map row_T_sat s) \<or> T_C > col_max (map row_T_sat s)))"
proof -
  let ?s = "sort_key row_T_sat df"
  have ne: "?s \<noteq> []" using assms by (metis length_sort length_0_conv)
  let ?t = "clamp_to (map row_T_sat ?s) T_C"
  have b: "col_min (map row_T_sat ?s) \<le> ?t" "?t \<le> col_max (map row_T_sat ?s)"
    using clamp_to_bounds[of "map row_T_sat ?s" T_C] ne by auto
  have 1: "filter (\<lambda>r. row_T_sat r \<le> ?t) ?s \<noteq> []" using filter_le_nonempty[OF ne b(1)] .
  have 2: "filter (\<lambda>r. row_T_sat r \<ge> ?t) ?s \<noteq> []" using filter_ge_nonempty[OF ne b(2)] .
  consider (lo) "T_C < col_min (map row_T_sat ?s)"
    | (hi) "\<not> T_C < col_min (map row_T_sat ?s)" "T_C > col_max (map row_T_sat ?s)"
    | (mid) "\<not> T_C < col_min (map row_T_sat ?s)" "\<not> T_C > col_max (map row_T_sat ?s)"
    by blast
  then show ?thesis
  proof cases
    case lo
    then have t: "?t = col_min (map row_T_sat ?s)" by (simp add: clamp_to_def)
    show ?thesis using assms lo 1 2 unfolding t
      by (simp add: get_psat_def Let_def iloc_last_def iloc_first_def t)
  next
    case hi
    then have t: "?t = col_max (map row_T_sat ?s)" by (simp add: clamp_to_def)
    show ?thesis using assms hi 1 2 unfolding t
      by (simp add: get_psat_def Let_def iloc_last_def iloc_first_def t)
  next
    case mid
    then have t: "?t = T_C" by (simp add: clamp_to_def)
    show ?thesis using assms mid 1 2 unfolding t
      by (simp add: get_psat_def Let_def iloc_last_def iloc_first_def t)
  qed
qed

lemma get_tsat_total:
  "df \<noteq> [] \<Longrightarrow> \<exists>ts clamped. get_tsat df P = Inr (Some ts, clamped)"
  by (simp add: get_tsat_closed_form Let_def)

lemma get_psat_total:
  "df \<noteq> [] \<Longrightarrow> \<exists>ps clamped. get_psat df T_C = Inr (Some ps, clamped)"
  by (simp add: get_psat_closed_form Let_def)

lemma get_tsat_returns: "\<exists>ts clamped. get_tsat df P = Inr (ts, clamped)"
  using get_tsat_total[of df P] by (cases "df = []") (auto simp: get_tsat_def)

lemma get_psat_returns: "\<exists>ps clamped. get_psat df T_C = Inr (ps, clamped)"
  using get_psat_total[of df T_C] by (cases "df = []") (auto simp: get_psat_def)

text \<open>The resolver as a function of the saturation temperature found.\<close>

lemma calculate_water_properties_unfold:
  assumes "get_tsat df P_bar = Inr (T_sat_at_P, clamped)"
  shows "calculate_water_properties df lib T_C P_bar x =
    (case (if IAPWS_AVAILABLE lib \<and> (above_sat T_sat_at_P T_C \<or> below_sat T_sat_at_P T_C)
           then calculate_water_properties_iapws lib T_C P_bar x else None) of
       Some iapws_result \<Rightarrow>
         Inr (if above_sat T_sat_at_P T_C then iapws_result\<lparr>w_x := 1\<rparr>
              else if below_sat T_sat_at_P T_C then iapws_result\<lparr>w_x := 0\<rparr>
              else iapws_result)
     | None \<Rightarrow> csv_water_properties df T_C P_bar x)"
proof -
  obtain ps c where "get_psat df T_C = Inr (ps, c)" using get_psat_returns by blast
  then show ?thesis using assms by (simp add: calculate_water_properties_def Let_def)
qed

lemma iapws_source:
  "calculate_water_properties_iapws lib T_C P_bar x = Some r \<Longrightarrow> w_source r = ''IAPWS-IF97''"
  by (auto simp: calculate_water_properties_iapws_def Let_def split: if_splits option.splits prod.splits)

lemma csv_source:
  "csv_water_properties df T_C P_bar x = Inr r \<Longrightarrow> w_source r = ''CSV Interpolation''"
  by (auto simp: csv_water_properties_def Let_def split: sum.splits if_splits)

lemma csv_x:
  "csv_water_properties df T_C P_bar x = Inr r \<Longrightarrow> w_x r = x"
  by (auto simp: csv_water_properties_def Let_def split: sum.splits if_splits)

lemma rint_of_int [simp]: "rint (of_int n) = n"
  by (simp add: rint_def)

lemma sample_tsat_1: "get_tsat sample_df 1 = Inr (Some 100, False)"
  using rint_of_int[of "10000000"]
  by (simp add: get_tsat_def sample_df_def iloc_last_def iloc_first_def py_round_def)

lemma sample_csv_130:
  "w_P (projr (csv_water_properties sample_df 130 1 1)) = Some 3"
  by (simp add: csv_water_properties_def interpolate_water_property_by_T_def sample_df_def
      iloc_last_def iloc_first_def Let_def)

lemma rint_numeral [simp]: "rint (numeral n) = numeral n"
  using rint_of_int[of "numeral n"] by (simp del: rint_of_int)

lemma rint_neg_numeral [simp]: "rint (- numeral n) = - numeral n"
  using rint_of_int[of "- numeral n"] by (simp del: rint_of_int)

lemma rint_0 [simp]: "rint 0 = 0"
  using rint_of_int[of 0] by (simp del: rint_of_int)

lemma rint_1 [simp]: "rint 1 = 1"
  using rint_of_int[of 1] by (simp del: rint_of_int)

subsection \<open>Monotonicity of the saturation temperature\<close>

lemma rint_bounds: "\<lfloor>y\<rfloor> \<le> rint y \<and> rint y \<le> \<lfloor>y\<rfloor> + 1"
  by (simp add: rint_def Let_def)

lemma rint_mono:
  assumes "x \<le> y"
  shows "rint x \<le> rint y"
proof (cases "\<lfloor>x\<rfloor> = \<lfloor>y\<rfloor>")
  case True
  then show ?thesis using assms by (auto simp: rint_def Let_def)
next
  case False
  have "\<lfloor>x\<rfloor> \<le> \<lfloor>y\<rfloor>" using assms by (rule floor_mono)
  with False have "\<lfloor>x\<rfloor> + 1 \<le> \<lfloor>y\<rfloor>" by simp
  then show ?thesis using rint_bounds[of x] rint_bounds[of y] by linarith
qed

lemma py_round_mono:
  assumes "x \<le> y"
  shows "py_round x n \<le> py_round y n"
proof -
  have "x * 10 ^ n \<le> y * 10 ^ n" using assms by simp
  then have "rint (x * 10 ^ n) \<le> rint (y * 10 ^ n)" by (rule rint_mono)
  then show ?thesis by (simp add: py_round_def divide_right_mono)
qed

lemma sorted_map_le_last:
  assumes "sorted (map f xs)" "x \<in> set xs"
  shows "f x \<le> f (last xs)"
  using assms
proof (induction xs)
  case Nil
  then show ?case by simp
next
  case (Cons a xs)
  then show ?case by (cases "xs = []") auto
qed

lemma sorted_map_hd_le:
  assumes "sorted (map f xs)" "x \<in> set xs"
  shows "f (hd xs) \<le> f x"
  using assms by (cases xs) auto

text \<open>The bracketing rows of a key in a table sorted by that key.\<close>

lemma lower_row:
  fixes f :: "'a \<Rightarrow> real"
  assumes "sorted (map f s)" "filter (\<lambda>r. f r \<le> p) s \<noteq> []"
  shows "last (filter (\<lambda>r. f r \<le> p) s) \<in> set s"
    and "f (last (filter (\<lambda>r. f r \<le> p) s)) \<le> p"
    and "\<And>r. r \<in> set s \<Longrightarrow> f r \<le> p \<Longrightarrow> f r \<le> f (last (filter (\<lambda>r. f r \<le> p) s))"
proof -
  let ?l = "filter (\<lambda>r. f r \<le> p) s"
  have in_l: "last ?l \<in> set ?l" using assms(2) by (rule last_in_set)
  then show "last ?l \<in> set s" "f (last ?l) \<le> p" by auto
  have srt: "sorted (map f ?l)" using assms(1) by (rule sorted_filter)
  show "f r \<le> f (last ?l)" if "r \<in> set s" "f r \<le> p" for r
    using sorted_map_le_last[OF srt, of r] that by simp
qed

lemma upper_row:
  fixes f :: "'a \<Rightarrow> real"
  assumes "sorted (map f s)" "filter (\<lambda>r. f r \<ge> p) s \<noteq> []"
  shows "hd (filter (\<lambda>r. f r \<ge> p) s) \<in> set s"
    and "p \<le> f (hd (filter (\<lambda>r. f r \<ge> p) s))"
    and "\<And>r. r \<in> set s \<Longrightarrow> p \<le> f r \<Longrightarrow> f (hd (filter (\<lambda>r. f r \<ge> p) s)) \<le> f r"
proof -
  let ?l = "filter (\<lambda>r. f r \<ge> p) s"
  have in_l: "hd ?l \<in> set ?l" using assms(2) by (rule hd_in_set)
  then show "hd ?l \<in> set s" "p \<le> f (hd ?l)" by auto
  have srt: "sorted (map f ?l)" using assms(1) by (rule sorted_filter)
  show "f (hd ?l) \<le> f r" if "r \<in> set s" "p \<le> f r" for r
    using sorted_map_hd_le[OF srt, of r] that by simp
qed

lemma lerp_bounds:
  assumes "k1 \<le> p" "p \<le> k2" "y1 \<le> y2"
  shows "y1 \<le> lerp k1 y1 k2 y2 p" "lerp k1 y1 k2 y2 p \<le> y2"
proof -
  show "y1 \<le> lerp k1 y1 k2 y2 p"
    using assms by (auto simp: lerp_def intro!: divide_nonneg_pos mult_nonneg_nonneg)
  show "lerp k1 y1 k2 y2 p \<le> y2"
  proof (cases "k1 = k2")
    case True
    then show ?thesis using assms by (simp add: lerp_def)
  next
    case False
    then have d: "0 < k2 - k1" using assms by simp
    have "(y2 - y1) * (p - k1) \<le> (y2 - y1) * (k2 - k1)"
      using assms by (intro mult_left_mono) simp_all
    then have "(y2 - y1) * (p - k1) / (k2 - k1) \<le> y2 - y1"
      using d by (simp add: pos_divide_le_eq)
    then show ?thesis using False by (simp add: lerp_def)
  qed
qed

lemma lerp_mono:
  assumes "k1 < k2" "y1 \<le> y2" "p \<le> q"
  shows "lerp k1 y1 k2 y2 p \<le> lerp k1 y1 k2 y2 q"
proof -
  have "(y2 - y1) * (p - k1) \<le> (y2 - y1) * (q - k1)"
    using assms by (intro mult_left_mono) simp_all
  then have "(y2 - y1) * (p - k1) / (k2 - k1) \<le> (y2 - y1) * (q - k1) / (k2 - k1)"
    using assms(1) by (intro divide_right_mono) simp_all
  then show ?thesis using assms(1) by (simp add: lerp_def)
qed


lemma get_tsat_as_lerp:
  assumes "df \<noteq> []"
  shows "get_tsat df P =
     Inr (Some (py_round (tsat_raw (sort_key row_P_bar df)
                  (clamp_to (map row_P_bar (sort_key row_P_bar df)) P)) 5),
          P < col_min (map row_P_bar (sort_key row_P_bar df)) \<or>
          P > col_max (map row_P_bar (sort_key row_P_bar df)))"
  by (simp add: get_tsat_closed_form[OF assms] tsat_raw_def lerp_def Let_def)

lemma tsat_raw_mono:
  assumes srt: "sorted (map row_P_bar s)"
    and co: "\<And>r r'. r \<in> set s \<Longrightarrow> r' \<in> set s \<Longrightarrow> row_P_bar r \<le> row_P_bar r' \<Longrightarrow>
               row_T_sat r \<le> row_T_sat r'"
    and ne: "s \<noteq> []"
    and lo: "col_min (map row_P_bar s) \<le> p" and pq: "p \<le> q"
    and hi: "q \<le> col_max (map row_P_bar s)"
  shows "tsat_raw s p \<le> tsat_raw s q"
proof -
  let ?la = "last (filter (\<lambda>r. row_P_bar r \<le> p) s)"
  let ?ua = "hd (filter (\<lambda>r. row_P_bar r \<ge> p) s)"
  let ?lb = "last (filter (\<lambda>r. row_P_bar r \<le> q) s)"
  let ?ub = "hd (filter (\<lambda>r. row_P_bar r \<ge> q) s)"
  have fa: "filter (\<lambda>r. row_P_bar r \<le> p) s \<noteq> []" using filter_le_nonempty[OF ne lo] .
  have fb: "filter (\<lambda>r. row_P_bar r \<le> q) s \<noteq> []"
    using filter_le_nonempty[OF ne, of row_P_bar q] lo pq by simp
  have ga: "filter (\<lambda>r. row_P_bar r \<ge> p) s \<noteq> []"
    using filter_ge_nonempty[OF ne, of p row_P_bar] pq hi by simp
  have gb: "filter (\<lambda>r. row_P_bar r \<ge> q) s \<noteq> []" using filter_ge_nonempty[OF ne hi] .
  note la = lower_row[OF srt fa] and lb = lower_row[OF srt fb]
  note ua = upper_row[OF srt ga] and ub = upper_row[OF srt gb]
  have Ta: "row_T_sat ?la \<le> row_T_sat ?ua"
    using co[OF la(1) ua(1)] la(2) ua(2) by simp
  have Tb: "row_T_sat ?lb \<le> row_T_sat ?ub"
    using co[OF lb(1) ub(1)] lb(2) ub(2) by simp
  have raw_a: "tsat_raw s p = lerp (row_P_bar ?la) (row_T_sat ?la) (row_P_bar ?ua) (row_T_sat ?ua) p"
    by (simp add: tsat_raw_def Let_def)
  have raw_b: "tsat_raw s q = lerp (row_P_bar ?lb) (row_T_sat ?lb) (row_P_bar ?ub) (row_T_sat ?ub) q"
    by (simp add: tsat_raw_def Let_def)
  show ?thesis
  proof (cases "row_P_bar ?ua \<le> q")
    case True
    have "row_P_bar ?ua \<le> row_P_bar ?lb" using lb(3)[OF ua(1) True] .
    then have "row_T_sat ?ua \<le> row_T_sat ?lb" using co[OF ua(1) lb(1)] by simp
    moreover have "tsat_raw s p \<le> row_T_sat ?ua"
      unfolding raw_a using lerp_bounds(2)[OF la(2) ua(2) Ta] .
    moreover have "row_T_sat ?lb \<le> tsat_raw s q"
      unfolding raw_b using lerp_bounds(1)[OF lb(2) ub(2) Tb] .
    ultimately show ?thesis by linarith
  next
    case False
    then have q_lt: "q < row_P_bar ?ua" by simp
    have "row_P_bar ?la \<le> row_P_bar ?lb" using lb(3)[OF la(1)] la(2) pq by simp
    moreover have "row_P_bar ?lb \<le> row_P_bar ?la"
    proof (cases "row_P_bar ?lb \<le> p")
      case True
      then show ?thesis using la(3)[OF lb(1)] by simp
    next
      case False
      then have "row_P_bar ?ua \<le> row_P_bar ?lb" using ua(3)[OF lb(1)] by simp
      then show ?thesis using lb(2) q_lt by simp
    qed
    ultimately have Pl: "row_P_bar ?lb = row_P_bar ?la" by simp
    have "row_P_bar ?ub \<le> row_P_bar ?ua" using ub(3)[OF ua(1)] q_lt by simp
    moreover have "row_P_bar ?ua \<le> row_P_bar ?ub" using ua(3)[OF ub(1)] ub(2) pq by simp
    ultimately have Pu: "row_P_bar ?ub = row_P_bar ?ua" by simp
    have Tl: "row_T_sat ?lb = row_T_sat ?la"
      using co[OF la(1) lb(1)] co[OF lb(1) la(1)] Pl by simp
    have Tu: "row_T_sat ?ub = row_T_sat ?ua"
      using co[OF ua(1) ub(1)] co[OF ub(1) ua(1)] Pu by simp
    have strict: "row_P_bar ?la < row_P_bar ?ua" using la(2) pq q_lt by simp
    show ?thesis
      unfolding raw_a raw_b Pl Pu Tl Tu using lerp_mono[OF strict Ta pq] .
  qed
qed

lemma clamp_to_mono: "ys \<noteq> [] \<Longrightarrow> p \<le> q \<Longrightarrow> clamp_to ys p \<le> clamp_to ys q"
  using col_min_le_max[of ys] by (auto simp: clamp_to_def)

lemma get_tsat_mono_general:
  assumes ne: "df \<noteq> []"
    and co: "\<And>r r'. r \<in> set df \<Longrightarrow> r' \<in> set df \<Longrightarrow> row_P_bar r \<le> row_P_bar r' \<Longrightarrow>
               row_T_sat r \<le> row_T_sat r'"
    and pq: "P_a \<le> P_b"
  shows "\<exists>Ta Tb ca cb. get_tsat df P_a = Inr (Some Ta, ca) \<and>
           get_tsat df P_b = Inr (Some Tb, cb) \<and> Ta \<le> Tb"
proof -
  let ?s = "sort_key row_P_bar df"
  let ?ks = "map row_P_bar ?s"
  have sne: "?s \<noteq> []" using ne by (metis length_sort length_0_conv)
  have kne: "?ks \<noteq> []" using sne by simp
  have srt: "sorted ?ks" by (rule sorted_sort_key)
  have co': "\<And>r r'. r \<in> set ?s \<Longrightarrow> r' \<in> set ?s \<Longrightarrow> row_P_bar r \<le> row_P_bar r' \<Longrightarrow>
               row_T_sat r \<le> row_T_sat r'"
    using co by simp
  have b1: "col_min ?ks \<le> clamp_to ?ks P_a" using clamp_to_bounds[OF kne] by simp
  have b2: "clamp_to ?ks P_b \<le> col_max ?ks" using clamp_to_bounds[OF kne] by simp
  have "tsat_raw ?s (clamp_to ?ks P_a) \<le> tsat_raw ?s (clamp_to ?ks P_b)"
    using tsat_raw_mono[OF srt co' sne b1 clamp_to_mono[OF kne pq] b2] .
  then have "py_round (tsat_raw ?s (clamp_to ?ks P_a)) 5 \<le> py_round (tsat_raw ?s (clamp_to ?ks P_b)) 5"
    by (rule py_round_mono)
  then show ?thesis
    unfolding get_tsat_as_lerp[OF ne] by blast
qed


lemma co_monotone_increasing:
  assumes "sorted_wrt (<) (map row_P_bar df)" "sorted_wrt (<) (map row_T_sat df)"
    and "r \<in> set df" "r' \<in> set df" "row_P_bar r \<le> row_P_bar r'"
  shows "row_T_sat r \<le> row_T_sat r'"
proof -
  obtain i where i: "i < length df" "df ! i = r" using assms(3) by (auto simp: in_set_conv_nth)
  obtain j where j: "j < length df" "df ! j = r'" using assms(4) by (auto simp: in_set_conv_nth)
  consider "i = j" | "i < j" | "j < i" by linarith
  then show ?thesis
  proof cases
    case 1
    then show ?thesis using i j by simp
  next
    case 2
    then have "map row_T_sat df ! i < map row_T_sat df ! j"
      using assms(2) j(1) by (simp add: sorted_wrt_iff_nth_less)
    then show ?thesis using i j 2 by simp
  next
    case 3
    then have "map row_P_bar df ! j < map row_P_bar df ! i"
      using assms(1) i(1) by (simp add: sorted_wrt_iff_nth_less)
    then show ?thesis using i j 3 assms(5) by simp
  qed
qed

lemma co_monotone_decreasing:
  assumes "sorted_wrt (>) (map row_P_bar df)" "sorted_wrt (>) (map row_T_sat df)"
    and "r \<in> set df" "r' \<in> set df" "row_P_bar r \<le> row_P_bar r'"
  shows "row_T_sat r \<le> row_T_sat r'"
proof -
  obtain i where i: "i < length df" "df ! i = r" using assms(3) by (auto simp: in_set_conv_nth)
  obtain j where j: "j < length df" "df ! j = r'" using assms(4) by (auto simp: in_set_conv_nth)
  consider "i = j" | "i < j" | "j < i" by linarith
  then show ?thesis
  proof cases
    case 1
    then show ?thesis using i j by simp
  next
    case 2
    then have "map row_P_bar df ! i > map row_P_bar df ! j"
      using assms(1) j(1) by (simp add: sorted_wrt_iff_nth_less)
    then show ?thesis using i j 2 assms(5) by simp
  next
    case 3
    then have "map row_T_sat df ! j > map row_T_sat df ! i"
      using assms(2) i(1) by (simp add: sorted_wrt_iff_nth_less)
    then show ?thesis using i j 3 by simp
  qed
qed

lemma col_min_sort_key: "col_min (map f (sort_key f df)) = col_min (map f df)"
proof (cases "df = []")
  case True
  then show ?thesis by simp
next
  case False
  then have "sort_key f df \<noteq> []" by (metis length_sort length_0_conv)
  then show ?thesis using False by (simp add: col_min_eq_Min)
qed

lemma col_max_sort_key: "col_max (map f (sort_key f df)) = col_max (map f df)"
proof (cases "df = []")
  case True
  then show ?thesis by simp
next
  case False
  then have "sort_key f df \<noteq> []" by (metis length_sort length_0_conv)
  then show ?thesis using False by (simp add: col_max_eq_Max)
qed

text \<open>
  Claim C8. Let the rows of the table be strictly monotonic in \<^verbatim>\<open>P_bar\<close> and in
  \<^verbatim>\<open>T_sat\<close>, both increasing or both decreasing. For two pressures \<open>P_a < P_b\<close> within
  the bounds of the table, \<open>get_tsat\<close> returns a temperature for each, neither
  clamped, and the temperature at \<open>P_a\<close> is at most the temperature at \<open>P_b\<close>.
\<close>

theorem saturation_temperature_monotone:
  assumes "sorted_wrt (<) (map row_P_bar df) \<and> sorted_wrt (<) (map row_T_sat df) \<or>
           sorted_wrt (>) (map row_P_bar df) \<and> sorted_wrt (>) (map row_T_sat df)"
    and "df \<noteq> []"
    and "col_min (map row_P_bar df) \<le> P_a" "P_a < P_b" "P_b \<le> col_max (map row_P_bar df)"
  shows "\<exists>Ta Tb. get_tsat df P_a = Inr (Some Ta, False) \<and>
                 get_tsat df P_b = Inr (Some Tb, False) \<and> Ta \<le> Tb"
proof -
  have co: "row_T_sat r \<le> row_T_sat r'"
    if "r \<in> set df" "r' \<in> set df" "row_P_bar r \<le> row_P_bar r'" for r r'
    using assms(1) co_monotone_increasing[OF _ _ that] co_monotone_decreasing[OF _ _ that]
    by blast
  obtain Ta Tb ca cb where g: "get_tsat df P_a = Inr (Some Ta, ca)"
      "get_tsat df P_b = Inr (Some Tb, cb)" "Ta \<le> Tb"
    using get_tsat_mono_general[OF assms(2) co, of P_a P_b] assms(4) by force
  have "\<not> ca" "\<not> cb"
    using g(1,2) assms(3,4,5)
    unfolding get_tsat_as_lerp[OF assms(2)] col_min_sort_key col_max_sort_key
    by auto
  with g show ?thesis by auto
qed

theorem saturation_temperature_monotone_witness:
  "sorted_wrt (<) (map row_P_bar sample_df) \<and> sorted_wrt (<) (map row_T_sat sample_df) \<and>
   sample_df \<noteq> [] \<and> col_min (map row_P_bar sample_df) \<le> 1 \<and> (1::real) < 3 \<and>
   3 \<le> col_max (map row_P_bar sample_df) \<and>
   get_tsat sample_df 1 = Inr (Some 100, False) \<and> get_tsat sample_df 3 = Inr (Some 130, False) \<and>
   (100::real) \<le> 130"
proof -
  have t3: "get_tsat sample_df 3 = Inr (Some 130, False)"
    by (simp add: get_tsat_def sample_df_def iloc_last_def iloc_first_def py_round_def)
  have h: "sorted_wrt (<) (map row_P_bar sample_df)" "sorted_wrt (<) (map row_T_sat sample_df)"
    "sample_df \<noteq> []" "col_min (map row_P_bar sample_df) \<le> 1"
    "3 \<le> col_max (map row_P_bar sample_df)"
    by (simp_all add: sample_df_def)
  show ?thesis
    using saturation_temperature_monotone [of sample_df 1 3] h t3 sample_tsat_1
    by simp
qed

section \<open>Properties of the property resolver\<close>

text \<open>
  Claim C5. A record tagged \<^verbatim>\<open>IAPWS-IF97\<close> is produced only when the library is
  available and the temperature is strictly above or strictly below the saturation
  temperature found for the pressure. At exactly the saturation temperature the
  result is the table path's, whatever the library is; so it is when the library
  is not available.
\<close>

theorem iapws_only_when_strictly_single_phase:
  "(calculate_water_properties df lib T_C P_bar x = Inr r \<and> w_source r = ''IAPWS-IF97'' \<longrightarrow>
      IAPWS_AVAILABLE lib \<and>
      (\<exists>ts clamped. get_tsat df P_bar = Inr (Some ts, clamped) \<and> (ts < T_C \<or> T_C < ts))) \<and>
   (get_tsat df P_bar = Inr (Some T_C, clamped) \<longrightarrow>
      calculate_water_properties df lib T_C P_bar x = csv_water_properties df T_C P_bar x) \<and>
   (\<not> IAPWS_AVAILABLE lib \<longrightarrow>
      calculate_water_properties df lib T_C P_bar x = csv_water_properties df T_C P_bar x)"
proof (intro conjI impI)
  assume a: "calculate_water_properties df lib T_C P_bar x = Inr r \<and> w_source r = ''IAPWS-IF97''"
  obtain t c where t: "get_tsat df P_bar = Inr (t, c)" using get_tsat_returns by blast
  note u = calculate_water_properties_unfold[OF t, of lib T_C x]
  show "IAPWS_AVAILABLE lib"
    using a u csv_source[of df T_C P_bar x r] by (auto split: if_splits option.splits)
  have "above_sat t T_C \<or> below_sat t T_C"
    using a u csv_source[of df T_C P_bar x r] by (auto split: if_splits option.splits)
  then obtain ts where "t = Some ts" "ts < T_C \<or> T_C < ts"
    by (cases t) (auto simp: above_sat_def below_sat_def)
  with t show "\<exists>ts clamped. get_tsat df P_bar = Inr (Some ts, clamped) \<and> (ts < T_C \<or> T_C < ts)"
    by blast
next
  assume t: "get_tsat df P_bar = Inr (Some T_C, clamped)"
  show "calculate_water_properties df lib T_C P_bar x = csv_water_properties df T_C P_bar x"
    using calculate_water_properties_unfold[OF t, of lib T_C x]
    by (simp add: above_sat_def below_sat_def)
next
  assume na: "\<not> IAPWS_AVAILABLE lib"
  obtain t c where t: "get_tsat df P_bar = Inr (t, c)" using get_tsat_returns by blast
  show "calculate_water_properties df lib T_C P_bar x = csv_water_properties df T_C P_bar x"
    using calculate_water_properties_unfold[OF t, of lib T_C x] na by simp
qed

theorem iapws_only_when_strictly_single_phase_witness:
  "get_tsat sample_df 1 = Inr (Some 100, False) \<and>
   calculate_water_properties sample_df iapws_constant 100 1 (1 / 2) =
     csv_water_properties sample_df 100 1 (1 / 2) \<and>
   w_source (projr (calculate_water_properties sample_df iapws_constant 100 1 (1 / 2))) =
     ''CSV Interpolation'' \<and>
   w_source (projr (calculate_water_properties sample_df iapws_constant 130 1 1)) =
     ''IAPWS-IF97'' \<and>
   IAPWS_AVAILABLE iapws_constant \<and> (100::real) < 130"
proof -
  have at_130: "w_source (projr (calculate_water_properties sample_df iapws_constant 130 1 1)) =
      ''IAPWS-IF97''"
    by (simp add: calculate_water_properties_unfold [OF sample_tsat_1] above_sat_def
        iapws_constant_def calculate_water_properties_iapws_def Let_def split: prod.splits)
  show ?thesis
    using iapws_only_when_strictly_single_phase [of sample_df iapws_constant 100 1 "1 / 2" _ False]
      sample_tsat_1 csv_water_properties_total [of sample_df 100 1 "1 / 2"] at_130
    by (simp add: sample_df_def iapws_constant_def)
qed

text \<open>
  Claim C6, as the code has it. When the main evaluation of the library raises, the
  wrapper returns \<^verbatim>\<open>None\<close>; and whenever the wrapper returns \<^verbatim>\<open>None\<close> the resolver gives
  exactly what the table path gives. For a non-empty table that is a record tagged
  \<^verbatim>\<open>CSV Interpolation\<close>, not an error. When only the evaluation of a saturation
  reference raises, the inner handler puts zeros and the input pressure in place of
  the references, and the record the wrapper returns stays tagged \<^verbatim>\<open>IAPWS-IF97\<close>.
\<close>

theorem iapws_failure_falls_back:
  "((if 0 < x \<and> x < 1 then IAPWS97_Tx lib (T_C + 27315 / 100) x
     else IAPWS97_TP lib (T_C + 27315 / 100) (P_bar * (1 / 10))) = None \<longrightarrow>
      calculate_water_properties_iapws lib T_C P_bar x = None) \<and>
   (calculate_water_properties_iapws lib T_C P_bar x = None \<longrightarrow>
      calculate_water_properties df lib T_C P_bar x = csv_water_properties df T_C P_bar x \<and>
      (df \<noteq> [] \<longrightarrow>
         (\<exists>r. calculate_water_properties df lib T_C P_bar x = Inr r \<and>
              w_source r = ''CSV Interpolation''))) \<and>
   (calculate_water_properties_iapws lib T_C P_bar x = Some r' \<and>
    (IAPWS97_Tx lib (T_C + 27315 / 100) 0 = None \<or> IAPWS97_Tx lib (T_C + 27315 / 100) 1 = None) \<longrightarrow>
      w_source r' = ''IAPWS-IF97'' \<and> w_vf r' = 0 \<and> w_vg r' = 0 \<and> w_P_sat r' = P_bar)"
proof (intro conjI impI)
  assume "(if 0 < x \<and> x < 1 then IAPWS97_Tx lib (T_C + 27315 / 100) x
     else IAPWS97_TP lib (T_C + 27315 / 100) (P_bar * (1 / 10))) = None"
  then show "calculate_water_properties_iapws lib T_C P_bar x = None"
    by (cases "0 < x \<and> x < 1") (auto simp: calculate_water_properties_iapws_def Let_def)
next
  assume n: "calculate_water_properties_iapws lib T_C P_bar x = None"
  obtain t c where t: "get_tsat df P_bar = Inr (t, c)" using get_tsat_returns by blast
  show eq: "calculate_water_properties df lib T_C P_bar x = csv_water_properties df T_C P_bar x"
    using calculate_water_properties_unfold[OF t, of lib T_C x] n by simp
  assume "df \<noteq> []"
  then show "\<exists>r. calculate_water_properties df lib T_C P_bar x = Inr r \<and>
              w_source r = ''CSV Interpolation''"
    using eq csv_water_properties_total[of df T_C P_bar x] by simp
next
  assume a: "calculate_water_properties_iapws lib T_C P_bar x = Some r' \<and>
    (IAPWS97_Tx lib (T_C + 27315 / 100) 0 = None \<or> IAPWS97_Tx lib (T_C + 27315 / 100) 1 = None)"
  then have sat: "iapws_saturation lib (T_C + 27315 / 100) P_bar = (0, 0, 0, 0, 0, 0, 0, 0, P_bar)"
    by (auto simp: iapws_saturation_def split: option.splits)
  show "w_source r' = ''IAPWS-IF97''"
    using a iapws_source by blast
  show "w_vf r' = 0" "w_vg r' = 0" "w_P_sat r' = P_bar"
    using a sat
    by (auto simp: calculate_water_properties_iapws_def Let_def split: if_splits option.splits)
qed

text \<open>
  The statement of C6 for every failure of the library fails where only the
  saturation references raise: on the sample table at 130 and 1 bar with quality 1
  the resolver returns a record tagged \<^verbatim>\<open>IAPWS-IF97\<close>, with zero in place of \<open>vf\<close>.
\<close>

theorem iapws_failure_falls_back_counterexample:
  "IAPWS97_Tx iapws_no_saturation (130 + 27315 / 100) 0 = None \<and>
   \<not> isl (calculate_water_properties sample_df iapws_no_saturation 130 1 1) \<and>
   w_source (projr (calculate_water_properties sample_df iapws_no_saturation 130 1 1)) =
     ''IAPWS-IF97'' \<and>
   w_vf (projr (calculate_water_properties sample_df iapws_no_saturation 130 1 1)) = 0"
  by (simp add: calculate_water_properties_unfold [OF sample_tsat_1] above_sat_def
      iapws_no_saturation_def calculate_water_properties_iapws_def iapws_saturation_def Let_def)

theorem iapws_failure_falls_back_witness:
  "IAPWS97_TP iapws_raising (130 + 27315 / 100) (1 * (1 / 10)) = None \<and> sample_df \<noteq> [] \<and>
   calculate_water_properties_iapws iapws_raising 130 1 1 = None \<and>
   calculate_water_properties sample_df iapws_raising 130 1 1 =
     csv_water_properties sample_df 130 1 1 \<and>
   (\<exists>r. calculate_water_properties sample_df iapws_raising 130 1 1 = Inr r \<and>
        w_source r = ''CSV Interpolation'')"
proof -
  have raised: "IAPWS97_TP iapws_raising (130 + 27315 / 100) (1 * (1 / 10)) = None"
    by (simp add: iapws_raising_def)
  have ne: "sample_df \<noteq> []"
    by (simp add: sample_df_def)
  note fallback = iapws_failure_falls_back [of 1 iapws_raising 130 1 sample_df]
  from fallback raised
  have none: "calculate_water_properties_iapws iapws_raising 130 1 1 = None"
    by simp
  from fallback none ne raised show ?thesis
    by blast
qed

section \<open>Properties of the state-1 handler\<close>

lemma gas_constants_rejects:
  "cp \<le> cv \<Longrightarrow> gas_constants ''custom'' (Some cp) (Some cv) =
     Inl (Failure 400 ''Invalid cp/cv for custom gas'' None)"
  by (simp add: gas_constants_def)

text \<open>
  Claim C7. A request for a custom gas with \<open>cp \<le> cv\<close> ends in a failure response and
  leaves the store as it was; when the request carries \<open>P\<close> and \<open>v\<close> the failure is the
  rejection \<^verbatim>\<open>Invalid cp/cv for custom gas\<close> with status 400.
\<close>

theorem custom_gas_rejected:
  assumes "rq_gas_name data_json = Some name" "py_lower name = ''custom''"
    and "rq_cp data_json = Some cp" "rq_cv data_json = Some cv" "cp \<le> cv"
  shows "snd (submit_gas df lib store data_json) = store \<and>
         (\<exists>code msg e. fst (submit_gas df lib store data_json) = Failure code msg e) \<and>
         (rq_P data_json \<noteq> None \<and> rq_v data_json \<noteq> None \<longrightarrow>
            fst (submit_gas df lib store data_json) =
              Failure 400 ''Invalid cp/cv for custom gas'' None)"
  using assms
  by (cases "rq_P data_json"; cases "rq_v data_json")
     (simp_all add: submit_gas_def submit_ideal_gas_def submission_failed_def
        gas_constants_rejects Let_def)

theorem custom_gas_rejected_witness:
  "py_lower ''Custom'' = ''custom'' \<and> (1::real) \<le> 1 \<and>
   submit_gas sample_df iapws_unavailable
     empty_store
     \<lparr>rq_gas_name = Some ''Custom'', rq_T = None, rq_P = Some 100, rq_x = None,
      rq_v = Some 1, rq_cp = Some 1, rq_cv = Some 1\<rparr>
   = (Failure 400 ''Invalid cp/cv for custom gas'' None,
      empty_store)"
  using custom_gas_rejected [of
     "\<lparr>rq_gas_name = Some ''Custom'', rq_T = None, rq_P = Some 100, rq_x = None,
      rq_v = Some 1, rq_cp = Some 1, rq_cv = Some 1\<rparr>" "''Custom''" 1 1 sample_df
     iapws_unavailable
     empty_store]
  by (simp add: py_lower_def prod_eq_iff)

section \<open>Properties of the stored states\<close>

lemma get_tsat_Some_nonempty: "get_tsat df P = Inr (Some ts, clamped) \<Longrightarrow> df \<noteq> []"
  by (auto simp: get_tsat_def)

lemma calculate_water_properties_returns:
  assumes "df \<noteq> []"
  shows "\<exists>w. calculate_water_properties df lib T_C P_bar x = Inr w"
proof -
  obtain t c where t: "get_tsat df P_bar = Inr (t, c)" using get_tsat_returns by blast
  show ?thesis
    using calculate_water_properties_unfold[OF t, of lib T_C x]
      csv_water_properties_total[OF assms, of T_C P_bar x]
    by (auto split: option.splits)
qed

lemma submit_water_stores:
  assumes "get_tsat df P_input = Inr (T_sat_at_P, clamped)"
    and "calculate_water_properties df lib T_input P_input x = Inr w"
  shows "\<exists>s. submit_gas df lib store (water_request T_input P_input x) =
           (Success (), store\<lparr>latest_submission := Some (Water_submission s)\<rparr>) \<and>
         s1_phase s = state1_phase T_sat_at_P T_input x \<and> s1_x s = w_x w \<and>
         s1_P s = w_P w \<and> s1_source s = w_source w \<and>
         s1_T_original s = T_input \<and> s1_P_original s = P_input"
proof -
  obtain ps c where "get_psat df T_input = Inr (ps, c)" using get_psat_returns by blast
  then show ?thesis using assms
    apply (simp add: submit_gas_def submit_water_def water_request_def py_lower_def)
    apply (intro exI conjI)
          apply (rule refl)
         apply simp_all
    done
qed

lemma resolver_x_forced:
  assumes "get_tsat df P_bar = Inr (Some ts, clamped)"
    and "calculate_water_properties df lib T_C P_bar x = Inr w" "w_source w = ''IAPWS-IF97''"
  shows "(T_C < ts \<longrightarrow> w_x w = 0) \<and> (ts < T_C \<longrightarrow> w_x w = 1)"
  using assms(2,3) calculate_water_properties_unfold[OF assms(1), of lib T_C x]
    csv_source[of df T_C P_bar x w]
  by (auto simp: above_sat_def below_sat_def split: if_splits option.splits)

lemma resolver_x_bounds:
  assumes "calculate_water_properties df lib T_C P_bar x = Inr w" "0 \<le> x" "x \<le> 1"
  shows "0 \<le> w_x w \<and> w_x w \<le> 1"
proof -
  obtain t c where t: "get_tsat df P_bar = Inr (t, c)" using get_tsat_returns by blast
  show ?thesis
    using assms calculate_water_properties_unfold[OF t, of lib T_C x] csv_x[of df T_C P_bar x w]
    by (auto split: if_splits option.splits)
qed

lemma submit_next_stage_cases:
  assumes "submit_next_stage df lib store data = (resp, store')"
  shows "store' = store \<and> (\<forall>phase. resp \<noteq> Success phase) \<or>
     (\<exists>T' P' x' w dT dP. 0 \<le> x' \<and> x' \<le> 1 \<and>
        calculate_water_properties df lib T' P' x' = Inr w \<and>
        store' = store\<lparr>state2_submission := Some (w\<lparr>w_T := dT, w_P := dP\<rparr>)\<rparr>)"
proof (cases "latest_submission store")
  case None
  then show ?thesis using assms by (auto simp: submit_next_stage_def)
next
  case (Some sub)
  show ?thesis
  proof (cases sub)
    case (Gas_submission g)
    then show ?thesis using assms Some by (auto simp: submit_next_stage_def)
  next
    case (Water_submission state1)
    obtain t c where t: "get_tsat df (s1_P_original state1) = Inr (t, c)"
      using get_tsat_returns by blast
    obtain ps c' where ps: "get_psat df (s1_T_original state1) = Inr (ps, c')"
      using get_psat_returns by blast
    let ?process = "case ns_process data of None \<Rightarrow> ''Isobaric'' | Some p \<Rightarrow> p"
    obtain dT dP cT cP where pc: "process_constraints ?process (s1_T_original state1)
        (s1_P_original state1) t ps (ns_T data) (ns_P data) = (dT, dP, cT, cP)"
      by (metis prod_cases4)
    show ?thesis
    proof (cases "adjust_quality df ?process (s1_T_original state1) (s1_P_original state1)
        cT cP (ns_x data)")
      case (Inl e)
      then show ?thesis using assms Some Water_submission t ps pc
        by (auto simp: submit_next_stage_def Let_def update_failed_def)
    next
      case (Inr calc_x)
      let ?x = "max 0 (min 1 calc_x)"
      let ?T = "case cT of Some t \<Rightarrow> t | None \<Rightarrow> s1_T_original state1"
      let ?P = "case cP of Some p \<Rightarrow> p | None \<Rightarrow> s1_P_original state1"
      have xb: "0 \<le> ?x" "?x \<le> 1" by simp_all
      show ?thesis
      proof (cases "calculate_water_properties df lib ?T ?P ?x")
        case (Inl e)
        then show ?thesis using assms Some Water_submission t ps pc Inr
          by (cases e) (auto simp: submit_next_stage_def Let_def update_failed_def)
      next
        case w: (Inr w)
        have "\<exists>dT dP. store' = store\<lparr>state2_submission := Some (w\<lparr>w_T := dT, w_P := dP\<rparr>)\<rparr>"
        proof (cases "?process = ''Isothermal''")
          case True
          then show ?thesis using assms Some Water_submission t ps pc Inr w
            by (auto simp: submit_next_stage_def Let_def update_failed_def split: if_splits)
        next
          case False
          note ni = this
          show ?thesis
          proof (cases "?process = ''Isobaric''")
            case True
            have swap: "w\<lparr>w_P := dP, w_T := dT\<rparr> = w\<lparr>w_T := dT, w_P := dP\<rparr>"
              by (cases w) simp
            have "store' = store\<lparr>state2_submission := Some (w\<lparr>w_P := dP, w_T := dT\<rparr>)\<rparr>"
              using True assms Some Water_submission t ps pc Inr w ni
              by (auto simp: submit_next_stage_def Let_def update_failed_def split: if_splits)
            then show ?thesis unfolding swap by blast
          next
            case False
            have same: "w\<lparr>w_T := w_T w, w_P := w_P w\<rparr> = w" by simp
            have "store' = store\<lparr>state2_submission := Some w\<rparr>"
              using assms Some Water_submission t ps pc Inr w ni False
              by (auto simp: submit_next_stage_def Let_def update_failed_def split: if_splits)
            then have "store' = store\<lparr>state2_submission :=
                Some (w\<lparr>w_T := w_T w, w_P := w_P w\<rparr>)\<rparr>"
              unfolding same .
            then show ?thesis by blast
          qed
        qed
        then show ?thesis using xb w by blast
      qed
    qed
  qed
qed


lemma sample_psat_100: "get_psat sample_df 100 = Inr (Some 1, False)"
  using rint_of_int[of "100000"]
  by (simp add: get_psat_def sample_df_def iloc_last_def iloc_first_def py_round_def)

text \<open>
  What \<open>submit_gas\<close> stores for a water request at a pressure with a saturation
  temperature \<open>ts\<close>, not zero: the phase tag follows the comparison of the
  temperature with \<open>ts\<close>, except that the test \<^verbatim>\<open>x == 0\<close> comes before it.
\<close>

lemma state1_phase_stored:
  assumes "get_tsat df P_input = Inr (Some ts, clamped)" and "ts \<noteq> 0"
  shows "\<exists>s. submit_gas df lib store (water_request T_input P_input x) =
           (Success (), store\<lparr>latest_submission := Some (Water_submission s)\<rparr>) \<and>
         (T_input < ts \<longrightarrow> s1_phase s = ''subcooled_liquid'') \<and>
         (ts < T_input \<and> x \<noteq> 0 \<longrightarrow> s1_phase s = ''superheated_vapor'') \<and>
         (ts < T_input \<and> x = 0 \<longrightarrow> s1_phase s = ''subcooled_liquid'') \<and>
         (T_input = ts \<and> x = 1 / 2 \<longrightarrow> s1_phase s = ''two_phase'' \<and> s1_x s = 1 / 2) \<and>
         (s1_source s = ''IAPWS-IF97'' \<longrightarrow>
            (T_input < ts \<longrightarrow> s1_x s = 0) \<and> (ts < T_input \<longrightarrow> s1_x s = 1))"
proof -
  have ne: "df \<noteq> []" using assms(1) by (rule get_tsat_Some_nonempty)
  obtain w where w: "calculate_water_properties df lib T_input P_input x = Inr w"
    using calculate_water_properties_returns[OF ne] by blast
  obtain s where s: "submit_gas df lib store (water_request T_input P_input x) =
           (Success (), store\<lparr>latest_submission := Some (Water_submission s)\<rparr>)"
     "s1_phase s = state1_phase (Some ts) T_input x" "s1_x s = w_x w" "s1_source s = w_source w"
    using submit_water_stores[OF assms(1) w, of store] by blast
  have sat: "T_input = ts \<Longrightarrow> w_x w = x"
    using w calculate_water_properties_unfold[OF assms(1), of lib T_input x]
      csv_x[of df T_input P_input x w]
    by (simp add: above_sat_def below_sat_def)
  have forced: "s1_source s = ''IAPWS-IF97'' \<longrightarrow>
            (T_input < ts \<longrightarrow> s1_x s = 0) \<and> (ts < T_input \<longrightarrow> s1_x s = 1)"
    using resolver_x_forced[OF assms(1) w] s(3,4) by simp
  show ?thesis
    using s assms(2) sat forced
    by (intro exI[of _ s]) (auto simp: state1_phase_def above_sat_def below_sat_def)
qed

text \<open>
  Claim C1 at a concrete input. On the sample table the saturation temperature at
  1 bar is 100. With the IAPWS library, a state at 130 and 1 bar submitted with
  quality 0 (the value the handler takes when the request gives none) is stored with
  the phase tag \<^verbatim>\<open>subcooled_liquid\<close> next to the quality 1 that the resolver, called
  by the same handler, forces for superheated vapour. Without the library, a state
  at 90 and 1 bar submitted with quality 0.5 is stored as \<^verbatim>\<open>subcooled_liquid\<close> with
  quality 0.5: the table path leaves the quality as submitted, where the IAPWS path
  forces it to 0.
\<close>

theorem state1_phase_contradicts_quality:
  "get_tsat sample_df 1 = Inr (Some 100, False) \<and>
   stored_phase (snd (submit_gas sample_df iapws_constant empty_store (water_request 130 1 0)))
     = Some ''subcooled_liquid'' \<and>
   stored_quality (snd (submit_gas sample_df iapws_constant empty_store (water_request 130 1 0)))
     = Some 1 \<and>
   stored_phase (snd (submit_gas sample_df iapws_unavailable empty_store (water_request 90 1 (1 / 2))))
     = Some ''subcooled_liquid'' \<and>
   stored_quality (snd (submit_gas sample_df iapws_unavailable empty_store (water_request 90 1 (1 / 2))))
     = Some (1 / 2)"
proof -
  have ne: "sample_df \<noteq> []" by (simp add: sample_df_def)
  have na: "\<not> IAPWS_AVAILABLE iapws_unavailable" by (simp add: iapws_unavailable_def)
  have csv: "calculate_water_properties sample_df iapws_unavailable T_C 1 x =
      csv_water_properties sample_df T_C 1 x" for T_C x
    using calculate_water_properties_unfold[OF sample_tsat_1, of iapws_unavailable T_C x] na
    by simp
  have src: "w_source (projr (calculate_water_properties sample_df iapws_constant 130 1 0)) =
      ''IAPWS-IF97''"
    by (simp add: calculate_water_properties_unfold [OF sample_tsat_1] above_sat_def
        iapws_constant_def calculate_water_properties_iapws_def Let_def split: prod.splits)
  obtain w1 where w1: "calculate_water_properties sample_df iapws_constant 130 1 0 = Inr w1"
    using calculate_water_properties_returns[OF ne] by blast
  obtain w2 where w2: "calculate_water_properties sample_df iapws_unavailable 90 1 (1 / 2) = Inr w2"
    using calculate_water_properties_returns[OF ne] by blast
  have x1: "w_x w1 = 1" using resolver_x_forced[OF sample_tsat_1 w1] src w1 by simp
  have x2: "w_x w2 = 1 / 2" using w2 csv[of 90 "1 / 2"] csv_x by metis
  show ?thesis
    using submit_water_stores[OF sample_tsat_1 w1, of empty_store]
      submit_water_stores[OF sample_tsat_1 w2, of empty_store] x1 x2 sample_tsat_1
    by (auto simp: stored_phase_def stored_quality_def state1_phase_def below_sat_def above_sat_def)
qed

text \<open>
  Claim C4 at a concrete input. On the sample table the saturation temperature at
  1 bar is 100, so a state at 130 and 1 bar with quality 1 is superheated vapour;
  without the IAPWS library the record reports the table's saturation pressure at
  130, which is 3, where the comment in the source and the claim ask for the input
  pressure 1.
\<close>

theorem table_path_reports_saturation_pressure:
  "get_tsat sample_df 1 = Inr (Some 100, False) \<and>
   stored_phase (snd (submit_gas sample_df iapws_unavailable empty_store (water_request 130 1 1)))
     = Some ''superheated_vapor'' \<and>
   w_P (projr (calculate_water_properties sample_df iapws_unavailable 130 1 1)) = Some 3"
proof -
  have na: "\<not> IAPWS_AVAILABLE iapws_unavailable" by (simp add: iapws_unavailable_def)
  have csv: "calculate_water_properties sample_df iapws_unavailable 130 1 1 =
      csv_water_properties sample_df 130 1 1"
    using calculate_water_properties_unfold[OF sample_tsat_1, of iapws_unavailable 130 1] na
    by simp
  obtain w where w: "calculate_water_properties sample_df iapws_unavailable 130 1 1 = Inr w"
    using calculate_water_properties_returns[OF get_tsat_Some_nonempty[OF sample_tsat_1]] by blast
  show ?thesis
    using submit_water_stores[OF sample_tsat_1 w, of empty_store] sample_tsat_1 sample_csv_130 csv
    by (auto simp: stored_phase_def state1_phase_def below_sat_def above_sat_def)
qed

text \<open>
  Claim C9. Whenever \<open>submit_next_stage\<close> writes a state-2 record, the record comes
  from a call of the resolver with a quality in \<open>[0, 1]\<close>, and its own quality is in
  \<open>[0, 1]\<close>; a response that is a success always comes with such a write. The state-1
  handler calls the resolver with the request's quality as it is and stores the
  quality of the record returned: on the table path that is the request's quality,
  whatever its value.
\<close>

theorem state2_quality_clamped:
  "(submit_next_stage df lib store data = (resp, store') \<longrightarrow>
      store' = store \<and> (\<forall>phase. resp \<noteq> Success phase) \<or>
      (\<exists>r T' P' x' w. state2_submission store' = Some r \<and> 0 \<le> x' \<and> x' \<le> 1 \<and>
          calculate_water_properties df lib T' P' x' = Inr w \<and> w_x r = w_x w \<and>
          0 \<le> w_x r \<and> w_x r \<le> 1)) \<and>
   (calculate_water_properties df lib T_input P_input x = Inr w1 \<longrightarrow>
      stored_quality (snd (submit_gas df lib store1 (water_request T_input P_input x))) =
        Some (w_x w1)) \<and>
   (df \<noteq> [] \<and> \<not> IAPWS_AVAILABLE lib \<longrightarrow>
      stored_quality (snd (submit_gas df lib store1 (water_request T_input P_input x))) = Some x)"
proof (intro conjI impI)
  assume a: "submit_next_stage df lib store data = (resp, store')"
  from submit_next_stage_cases[OF a]
  show "store' = store \<and> (\<forall>phase. resp \<noteq> Success phase) \<or>
      (\<exists>r T' P' x' w. state2_submission store' = Some r \<and> 0 \<le> x' \<and> x' \<le> 1 \<and>
          calculate_water_properties df lib T' P' x' = Inr w \<and> w_x r = w_x w \<and>
          0 \<le> w_x r \<and> w_x r \<le> 1)"
  proof
    assume "store' = store \<and> (\<forall>phase. resp \<noteq> Success phase)"
    then show ?thesis by blast
  next
    assume "\<exists>T' P' x' w dT dP. 0 \<le> x' \<and> x' \<le> 1 \<and>
        calculate_water_properties df lib T' P' x' = Inr w \<and>
        store' = store\<lparr>state2_submission := Some (w\<lparr>w_T := dT, w_P := dP\<rparr>)\<rparr>"
    then obtain T' P' x' w dT dP where h: "0 \<le> x'" "x' \<le> 1"
        "calculate_water_properties df lib T' P' x' = Inr w"
        "store' = store\<lparr>state2_submission := Some (w\<lparr>w_T := dT, w_P := dP\<rparr>)\<rparr>"
      by blast
    let ?r = "w\<lparr>w_T := dT, w_P := dP\<rparr>"
    have "state2_submission store' = Some ?r" "w_x ?r = w_x w" using h(4) by simp_all
    moreover have "0 \<le> w_x ?r \<and> w_x ?r \<le> 1" using resolver_x_bounds[OF h(3) h(1) h(2)] by simp
    ultimately show ?thesis using h(1,2,3) by blast
  qed
next
  assume w1: "calculate_water_properties df lib T_input P_input x = Inr w1"
  obtain t c where t: "get_tsat df P_input = Inr (t, c)" using get_tsat_returns by blast
  show "stored_quality (snd (submit_gas df lib store1 (water_request T_input P_input x))) =
        Some (w_x w1)"
    using submit_water_stores[OF t w1, of store1] by (auto simp: stored_quality_def)
next
  assume a: "df \<noteq> [] \<and> \<not> IAPWS_AVAILABLE lib"
  obtain t c where t: "get_tsat df P_input = Inr (t, c)" using get_tsat_returns by blast
  obtain w where w: "calculate_water_properties df lib T_input P_input x = Inr w"
    using calculate_water_properties_returns a by blast
  have "w_x w = x"
    using w a calculate_water_properties_unfold[OF t, of lib T_input x] csv_x[of df T_input P_input x w]
    by simp
  then show "stored_quality (snd (submit_gas df lib store1 (water_request T_input P_input x))) = Some x"
    using submit_water_stores[OF t w, of store1] by (auto simp: stored_quality_def)
qed

theorem state2_quality_clamped_witness:
  "sample_df \<noteq> [] \<and> \<not> IAPWS_AVAILABLE iapws_unavailable \<and>
   stored_quality (snd (submit_gas sample_df iapws_unavailable empty_store (water_request 100 1 2)))
     = Some 2 \<and>
   map_option w_x (state2_submission (snd (submit_next_stage sample_df iapws_unavailable
       (snd (submit_gas sample_df iapws_unavailable empty_store (water_request 100 1 2)))
       \<lparr>ns_process = Some ''Isochoric'', ns_P = None, ns_T = None, ns_v = None, ns_x = Some 2\<rparr>)))
     = Some 1"
proof -
  have ne: "sample_df \<noteq> []" by (simp add: sample_df_def)
  have na: "\<not> IAPWS_AVAILABLE iapws_unavailable" by (simp add: iapws_unavailable_def)
  have csv: "calculate_water_properties sample_df iapws_unavailable T_C 1 x =
      csv_water_properties sample_df T_C 1 x" for T_C x
    using calculate_water_properties_unfold[OF sample_tsat_1, of iapws_unavailable T_C x] na
    by simp
  obtain w1 where w1: "calculate_water_properties sample_df iapws_unavailable 100 1 2 = Inr w1"
    using calculate_water_properties_returns[OF ne] by blast
  obtain s where s: "submit_gas sample_df iapws_unavailable empty_store (water_request 100 1 2) =
      (Success (), empty_store\<lparr>latest_submission := Some (Water_submission s)\<rparr>)"
      "s1_T_original s = 100" "s1_P_original s = 1"
    using submit_water_stores[OF sample_tsat_1 w1, of empty_store] by blast
  let ?data = "\<lparr>ns_process = Some ''Isochoric'', ns_P = None, ns_T = None, ns_v = None,
      ns_x = Some (2::real)\<rparr>"
  let ?store = "empty_store\<lparr>latest_submission := Some (Water_submission s)\<rparr>"
  have w2: "calculate_water_properties sample_df iapws_unavailable 100 1 1 =
      Inr (projr (csv_water_properties sample_df 100 1 1))"
    using csv[of 100 1] csv_water_properties_total[OF ne, of 100 1 1] by simp
  have x2: "w_x (projr (csv_water_properties sample_df 100 1 1)) = 1"
    using csv_water_properties_total[OF ne, of 100 1 1] by simp
  have T2: "w_T (projr (csv_water_properties sample_df 100 1 1)) = Some 100"
    "w_P (projr (csv_water_properties sample_df 100 1 1)) \<noteq> None"
    using csv_water_properties_total[OF ne, of 100 1 1] by simp_all
  have next_stage: "map_option w_x (state2_submission (snd (submit_next_stage sample_df
      iapws_unavailable ?store ?data))) = Some 1"
    using s(2,3) sample_tsat_1 sample_psat_100 w2 x2 T2
    by (simp add: submit_next_stage_def process_constraints_def adjust_quality_def or_else_def
        Let_def update_failed_def)
  show ?thesis
    using state2_quality_clamped [of sample_df iapws_unavailable ?store ?data _ _ 100 1 2 w1 empty_store]
      ne na s(1) next_stage
    by simp
qed

section \<open>Properties of the process results\<close>

text \<open>
  What \<open>get_water_results\<close> returns for a stored water process whose state-1 values
  are all present, whose volumes and pressures pass the divisions of the scaling
  report, and whose dome sample is either not taken or finds a pressure: the work
  formula is chosen by comparing the stored process name with four literal names,
  the work is 0 under any other name, and \<open>Q = delta_u + W\<close>.
\<close>

lemma water_results_by_name:
  assumes "process_info store = Some (Water_process info)"
    and "wp_state1 info = \<lparr>i1_T = Some T1, i1_P = Some P1, i1_v = Some v1, i1_u = Some u1,
           i1_h = Some h1, i1_s = Some s1, i1_x = Some x1\<rparr>"
    and "wp_state2 info = \<lparr>i2_T = T2, i2_P = P2, i2_v = v2, i2_u = u2,
           i2_h = h2, i2_s = s2, i2_x = x2\<rparr>"
    and "min v1 v2 \<noteq> 0" "min P1 P2 \<noteq> 0" "v1 \<noteq> 0"
    and "\<not> show_saturation T1 T2 \<or> (\<exists>p ps. dome_pressures df T1 T2 = Inr (p # ps))"
  shows "\<exists>W Q. get_water_results df store =
           Success \<lparr>wr_process_type = wp_process info, wr_W = py_round W 3, wr_Q = py_round Q 3,
                    wr_delta_u = py_round (u2 - u1) 3, wr_delta_h = py_round (h2 - h1) 3,
                    wr_delta_s = py_round (s2 - s1) 5\<rparr> \<and>
         Q = (u2 - u1) + W \<and>
         (wp_process info = ''Constant Pressure'' \<longrightarrow> W = P1 * 100 * (v2 - v1)) \<and>
         (wp_process info = ''Constant Volume'' \<longrightarrow> W = 0) \<and>
         (wp_process info = ''Isothermal'' \<longrightarrow> W = (P1 + P2) / 2 * 100 * (v2 - v1)) \<and>
         (wp_process info = ''Adiabatic'' \<longrightarrow> W = - (u2 - u1) \<and> Q = 0) \<and>
         (wp_process info \<noteq> ''Constant Pressure'' \<and> wp_process info \<noteq> ''Constant Volume'' \<and>
          wp_process info \<noteq> ''Isothermal'' \<and> wp_process info \<noteq> ''Adiabatic'' \<longrightarrow> W = 0)"
  using assms
  by (intro exI[of _ "water_work (wp_process info) P1 P2 v1 v2 (u2 - u1)"]
        exI[of _ "(u2 - u1) + water_work (wp_process info) P1 P2 v1 v2 (u2 - u1)"])
     (auto simp: get_water_results_def py_float_def water_work_def Let_def)

lemma sample_dome_100: "\<exists>p ps. dome_pressures sample_df 100 100 = Inr (p # ps)"
proof -
  have ne: "sample_df \<noteq> []" by (simp add: sample_df_def)
  have all: "\<forall>r\<in>set (map (get_psat sample_df) ts). \<exists>y. r = Inr y" for ts
    using get_psat_returns[of sample_df] by auto
  have range: "linspace (max (1 / 100) (min 100 100 - 5)) (min 374 (max 100 100 + 5)) 50 =
      95 # tl (linspace 95 105 50)"
    by (simp add: linspace_def upt_rec [of 0] del: upt_Suc)
  have first: "get_psat sample_df 95 = Inr (Some 1, True)"
    by (simp add: get_psat_def sample_df_def iloc_last_def iloc_first_def py_round_def)
  show ?thesis
    unfolding dome_pressures_def Let_def range
    by (simp add: sequence_all_Inr[OF all] first)
qed

text \<open>
  Claim C3 at a concrete input. The stored process has \<open>P1 = 1\<close>, \<open>P2 = 3\<close>, \<open>v1 = 1\<close>,
  \<open>v2 = 2\<close> and \<open>delta_u = 500\<close>. Under the name \<^verbatim>\<open>Adiabatic (n=k)\<close>, the key of
  \<^verbatim>\<open>PROCESS_MAP\<close> for the adiabatic kind, the work returned is 0 and the heat 500
  (at 400 degrees, and at 100 degrees where the saturation dome is sampled too),
  where the name \<^verbatim>\<open>Adiabatic\<close> gives \<open>W = - delta_u = -500\<close> and \<open>Q = 0\<close>. Under the name
  \<^verbatim>\<open>Isobaric\<close>, which \<open>submit_next_stage\<close> uses for the same constraint, the work
  returned is 0, where the name \<^verbatim>\<open>Constant Pressure\<close> gives
  \<open>W = P1 * 100 * (v2 - v1) = 100\<close>.
\<close>

theorem water_work_unmatched_process_names:
  "PROCESS_MAP ''Adiabatic (n=k)'' = Some adiabatic \<and> PROCESS_MAP ''Adiabatic'' = None \<and>
   get_water_results sample_df (sample_water_process ''Adiabatic (n=k)'' 400) =
     Success \<lparr>wr_process_type = ''Adiabatic (n=k)'', wr_W = 0, wr_Q = 500,
              wr_delta_u = 500, wr_delta_h = 600, wr_delta_s = 1\<rparr> \<and>
   get_water_results sample_df (sample_water_process ''Adiabatic (n=k)'' 100) =
     Success \<lparr>wr_process_type = ''Adiabatic (n=k)'', wr_W = 0, wr_Q = 500,
              wr_delta_u = 500, wr_delta_h = 600, wr_delta_s = 1\<rparr> \<and>
   get_water_results sample_df (sample_water_process ''Adiabatic'' 400) =
     Success \<lparr>wr_process_type = ''Adiabatic'', wr_W = - 500, wr_Q = 0,
              wr_delta_u = 500, wr_delta_h = 600, wr_delta_s = 1\<rparr> \<and>
   get_water_results sample_df (sample_water_process ''Isobaric'' 400) =
     Success \<lparr>wr_process_type = ''Isobaric'', wr_W = 0, wr_Q = 500,
              wr_delta_u = 500, wr_delta_h = 600, wr_delta_s = 1\<rparr> \<and>
   get_water_results sample_df (sample_water_process ''Constant Pressure'' 400) =
     Success \<lparr>wr_process_type = ''Constant Pressure'', wr_W = 100, wr_Q = 600,
              wr_delta_u = 500, wr_delta_h = 600, wr_delta_s = 1\<rparr>"
proof -
  have sat: "\<not> show_saturation 400 400"
    by (simp add: show_saturation_def)
  have run: "get_water_results sample_df (sample_water_process name 400) =
      Success \<lparr>wr_process_type = name,
               wr_W = py_round (water_work name 1 3 1 2 500) 3,
               wr_Q = py_round (500 + water_work name 1 3 1 2 500) 3,
               wr_delta_u = 500, wr_delta_h = 600, wr_delta_s = 1\<rparr>" for name
    using sat
    by (simp add: get_water_results_def sample_water_process_def py_float_def py_round_def
        Let_def)
  have work: "water_work ''Adiabatic (n=k)'' 1 3 1 2 500 = 0"
    "water_work ''Adiabatic'' 1 3 1 2 500 = - 500"
    "water_work ''Isobaric'' 1 3 1 2 500 = 0"
    "water_work ''Constant Pressure'' 1 3 1 2 500 = 100"
    by (simp_all add: water_work_def)
  have names: "PROCESS_MAP ''Adiabatic (n=k)'' = Some adiabatic" "PROCESS_MAP ''Adiabatic'' = None"
    by (simp_all add: PROCESS_MAP_def)
  have dome: "get_water_results sample_df (sample_water_process ''Adiabatic (n=k)'' 100) =
      Success \<lparr>wr_process_type = ''Adiabatic (n=k)'', wr_W = 0, wr_Q = 500,
               wr_delta_u = 500, wr_delta_h = 600, wr_delta_s = 1\<rparr>"
    using water_results_by_name [of "sample_water_process ''Adiabatic (n=k)'' 100" _
        100 1 1 2000 2100 6 "1 / 2" 100 3 2 2500 2700 7 1 sample_df]
      sample_dome_100
    by (auto simp: sample_water_process_def py_round_def)
  show ?thesis
    unfolding run work dome using names by (simp add: py_round_def)
qed

subsection \<open>The ideal-gas calculation\<close>

lemma second_state_returns:
  assumes "second_state kind P1 v1 T1 k v_ratio p_ratio n = Inr (P2, T2, v2, e)"
  shows "\<exists>vr. v_ratio = Some vr \<and>
     (kind = isochoric \<longrightarrow>
        v2 = v1 \<and> (\<exists>pr. p_ratio = Some pr \<and> P2 = Fin (P1 * pr) \<and> T2 = Fin (T1 * pr))) \<and>
     (kind = isobaric \<longrightarrow>
        v2 = v1 * vr \<and> P2 = Fin P1 \<and> T2 = Fin (T1 * vr) \<and> e = Some 0) \<and>
     (kind = isothermal \<longrightarrow>
        v2 = v1 * vr \<and> v2 \<noteq> 0 \<and> P2 = Fin (P1 * (v1 / v2)) \<and> T2 = Fin T1 \<and> e = Some 1) \<and>
     (kind = adiabatic \<longrightarrow>
        v2 = v1 * vr \<and> v2 \<noteq> 0 \<and> e = Some k \<and>
        (\<exists>a b. py_pow (v1 / v2) k = Inr a \<and> py_pow (v1 / v2) (k - 1) = Inr b \<and>
           P2 = fmul (Fin P1) a \<and> T2 = fmul (Fin T1) b)) \<and>
     (kind = polytropic \<longrightarrow>
        v2 = v1 * vr \<and> v2 \<noteq> 0 \<and> e = Some (case n of Some m \<Rightarrow> m | None \<Rightarrow> 1) \<and>
        (\<exists>a b. py_pow (v1 / v2) (case n of Some m \<Rightarrow> m | None \<Rightarrow> 1) = Inr a \<and>
           py_pow (v1 / v2) ((case n of Some m \<Rightarrow> m | None \<Rightarrow> 1) - 1) = Inr b \<and>
           P2 = fmul (Fin P1) a \<and> T2 = fmul (Fin T1) b))"
  using assms
  by (cases kind)
     (auto simp: second_state_def bind_err_def py_div_def Let_def
           split: option.splits sum.splits if_splits)

lemma boundary_work_returns:
  assumes "boundary_work kind R P1 v1 T1 P2 v2 (Some e) = Inr W"
  shows "(kind = isobaric \<longrightarrow> W = Fin (P1 * (v2 - v1))) \<and>
     (kind = isothermal \<longrightarrow> v1 \<noteq> 0 \<and> W = fmul (Fin (R * T1)) (np_log (Fin (v2 / v1)))) \<and>
     (kind = adiabatic \<or> kind = polytropic \<longrightarrow>
        (if isclose e 1 then v1 \<noteq> 0 \<and> W = fmul (Fin (R * T1)) (np_log (Fin (v2 / v1)))
         else W = fdiv (fsub (fmul P2 (Fin v2)) (Fin (P1 * v1))) (1 - e)))"
  using assms
  by (cases kind)
     (auto simp: boundary_work_def bind_err_def py_div_def py_fdiv_def
           split: if_splits)

lemma boundary_work_isochoric:
  "boundary_work isochoric R P1 v1 T1 P2 v2 e = Inr (Fin 0)"
  by (simp add: boundary_work_def)


lemma ideal_gas_process_returns:
  assumes "ideal_gas_process gas kind v_ratio p_ratio n = Inr r"
  obtains P2 T2 v2 e W where
    "second_state kind (g_P gas) (g_v gas) (g_T gas) (g_k gas) v_ratio p_ratio n =
       Inr (P2, T2, v2, e)"
    "boundary_work kind (g_R gas) (g_P gas) (g_v gas) (g_T gas) P2 v2 e = Inr W"
    "g_T gas \<noteq> 0" "g_P gas \<noteq> 0"
    "gr_T1 r = Fin (g_T gas)" "gr_P1 r = Fin (g_P gas)" "gr_v1 r = Fin (g_v gas)"
    "gr_T2 r = T2" "gr_P2 r = P2" "gr_v2 r = Fin v2" "gr_W r = W"
    "gr_delta_u r = fsub (fmul (Fin (g_cv gas)) T2) (Fin (g_cv gas * g_T gas))"
    "gr_Q r = fadd (gr_delta_u r) W"
    "gr_delta_s r = fsub (fmul (Fin (g_cp gas)) (np_log (fdiv T2 (g_T gas))))
                         (fmul (Fin (g_R gas)) (np_log (fdiv P2 (g_P gas))))"
    "gr_s1 r = fsub (fmul (Fin (g_cp gas)) (np_log (Fin (g_T gas))))
                    (fmul (Fin (g_R gas)) (np_log (Fin (g_P gas))))"
    "gr_s2 r = fadd (gr_s1 r) (gr_delta_s r)"
  using assms
  by (auto simp: ideal_gas_process_def bind_err_def py_fdiv_def Let_def
           split: sum.splits prod.splits if_splits)


lemma second_state_positive:
  assumes "0 < T1" "0 < P1" "0 < v1" "0 < vr" "kind = isochoric \<longrightarrow> p_ratio = Some pr"
  shows "second_state kind P1 v1 T1 k (Some vr) p_ratio n =
     Inr (case kind of
            isochoric \<Rightarrow> (Fin (P1 * pr), Fin (T1 * pr), v1, None)
          | isobaric \<Rightarrow> (Fin P1, Fin (T1 * vr), v1 * vr, Some 0)
          | isothermal \<Rightarrow> (Fin (P1 * (v1 / (v1 * vr))), Fin T1, v1 * vr, Some 1)
          | adiabatic \<Rightarrow> (Fin (P1 * (v1 / (v1 * vr)) powr k),
                          Fin (T1 * (v1 / (v1 * vr)) powr (k - 1)), v1 * vr, Some k)
          | polytropic \<Rightarrow>
              (Fin (P1 * (v1 / (v1 * vr)) powr (case n of Some m \<Rightarrow> m | None \<Rightarrow> 1)),
               Fin (T1 * (v1 / (v1 * vr)) powr ((case n of Some m \<Rightarrow> m | None \<Rightarrow> 1) - 1)),
               v1 * vr, Some (case n of Some m \<Rightarrow> m | None \<Rightarrow> 1)))"
  using assms
  by (cases kind)
     (simp_all add: second_state_def bind_err_def py_div_def py_pow_def fmul_def Let_def)

lemma boundary_work_positive:
  assumes "0 < v1" "0 < v2"
  shows "boundary_work kind R P1 v1 T1 (Fin P2) v2 (Some e) =
     Inr (Fin (case kind of
            isochoric \<Rightarrow> 0
          | isobaric \<Rightarrow> P1 * (v2 - v1)
          | isothermal \<Rightarrow> R * T1 * ln (v2 / v1)
          | _ \<Rightarrow> if isclose e 1 then R * T1 * ln (v2 / v1)
                  else (P2 * v2 - P1 * v1) / (1 - e)))"
proof -
  have ne: "\<not> isclose e 1 \<Longrightarrow> 1 - e \<noteq> 0"
    by (auto simp: isclose_def)
  show ?thesis
    using assms ne
    by (cases kind)
       (simp_all add: boundary_work_def bind_err_def py_div_def py_fdiv_def fmul_def fsub_def)
qed

lemma get_ideal_gas_results_success:
  assumes "latest_submission store = Some (Gas_submission gas)"
    and "PROCESS_MAP (gp_process info) = Some kind"
    and "ideal_gas_process gas kind (gp_v_ratio info) (gp_p_ratio info) (gp_n_value info) = Inr r"
    and "kind \<noteq> polytropic \<or> gp_n_value info \<noteq> None"
    and "gr_T2 r \<noteq> Cplx" "gr_P2 r \<noteq> Cplx"
  shows "get_ideal_gas_results store info = Success (round_gas_result r)"
  using assms by (auto simp: get_ideal_gas_results_def)

text \<open>
  Claim C2, as the code has it. Part one, for every evaluation of the ideal-gas
  calculation that produces a result, whatever the stored gas and the ratios: the
  second state and the work are those of the table of the specification for each of
  the five kinds, computed with Python's \<^verbatim>\<open>**\<close> and NumPy's logarithm, with one
  difference: the adiabatic work takes the logarithmic form \<open>R * T1 * ln (v2 / v1)\<close>
  when \<open>k\<close> is close to 1, through the same \<^verbatim>\<open>np.isclose\<close> test as the polytropic
  work (whose exponent is 1 when the request gives no \<^verbatim>\<open>n_value\<close>). For every kind
  \<open>Q = delta_u + W\<close>, \<open>delta_s = cp * ln (T2 / T1) - R * ln (P2 / P1)\<close>,
  \<open>s1 = cp * ln T1 - R * ln P1\<close> and \<open>s2 = s1 + delta_s\<close>. Part two: on positive \<open>T1\<close>,
  \<open>P1\<close>, \<open>v1\<close> and volume ratio (and pressure ratio, for the isochoric kind) the
  calculation does produce a result, and every number of it is the real number the
  formula denotes.
\<close>

theorem ideal_gas_process_formulas:
  "(\<forall>r. ideal_gas_process gas kind v_ratio p_ratio n = Inr r \<longrightarrow>
     (\<exists>vr v2. v_ratio = Some vr \<and> gr_v2 r = Fin v2 \<and>
          gr_T1 r = Fin (g_T gas) \<and> gr_P1 r = Fin (g_P gas) \<and> gr_v1 r = Fin (g_v gas) \<and>
          (kind = isochoric \<longrightarrow>
             v2 = g_v gas \<and>
             (\<exists>pr. p_ratio = Some pr \<and> gr_P2 r = Fin (g_P gas * pr) \<and>
                   gr_T2 r = Fin (g_T gas * pr)) \<and>
             gr_W r = Fin 0) \<and>
          (kind = isobaric \<longrightarrow>
             v2 = g_v gas * vr \<and> gr_P2 r = Fin (g_P gas) \<and> gr_T2 r = Fin (g_T gas * vr) \<and>
             gr_W r = Fin (g_P gas * (v2 - g_v gas))) \<and>
          (kind = isothermal \<longrightarrow>
             v2 = g_v gas * vr \<and> gr_P2 r = Fin (g_P gas * (g_v gas / v2)) \<and>
             gr_T2 r = Fin (g_T gas) \<and>
             gr_W r = fmul (Fin (g_R gas * g_T gas)) (np_log (Fin (v2 / g_v gas)))) \<and>
          (kind = adiabatic \<longrightarrow>
             v2 = g_v gas * vr \<and>
             (\<exists>a b. py_pow (g_v gas / v2) (g_k gas) = Inr a \<and>
                    py_pow (g_v gas / v2) (g_k gas - 1) = Inr b \<and>
                    gr_P2 r = fmul (Fin (g_P gas)) a \<and> gr_T2 r = fmul (Fin (g_T gas)) b) \<and>
             gr_W r =
               (if isclose (g_k gas) 1
                then fmul (Fin (g_R gas * g_T gas)) (np_log (Fin (v2 / g_v gas)))
                else fdiv (fsub (fmul (gr_P2 r) (Fin v2)) (Fin (g_P gas * g_v gas)))
                       (1 - g_k gas))) \<and>
          (kind = polytropic \<longrightarrow>
             v2 = g_v gas * vr \<and>
             (\<exists>a b m. m = (case n of Some m \<Rightarrow> m | None \<Rightarrow> 1) \<and>
                    py_pow (g_v gas / v2) m = Inr a \<and> py_pow (g_v gas / v2) (m - 1) = Inr b \<and>
                    gr_P2 r = fmul (Fin (g_P gas)) a \<and> gr_T2 r = fmul (Fin (g_T gas)) b \<and>
                    gr_W r =
                      (if isclose m 1
                       then fmul (Fin (g_R gas * g_T gas)) (np_log (Fin (v2 / g_v gas)))
                       else fdiv (fsub (fmul (gr_P2 r) (Fin v2)) (Fin (g_P gas * g_v gas)))
                              (1 - m)))) \<and>
          gr_delta_u r = fsub (fmul (Fin (g_cv gas)) (gr_T2 r)) (Fin (g_cv gas * g_T gas)) \<and>
          gr_Q r = fadd (gr_delta_u r) (gr_W r) \<and>
          gr_delta_s r =
            fsub (fmul (Fin (g_cp gas)) (np_log (fdiv (gr_T2 r) (g_T gas))))
                 (fmul (Fin (g_R gas)) (np_log (fdiv (gr_P2 r) (g_P gas)))) \<and>
          gr_s1 r = fsub (fmul (Fin (g_cp gas)) (np_log (Fin (g_T gas))))
                         (fmul (Fin (g_R gas)) (np_log (Fin (g_P gas)))) \<and>
          gr_s2 r = fadd (gr_s1 r) (gr_delta_s r))) \<and>
   (0 < g_T gas \<and> 0 < g_P gas \<and> 0 < g_v gas \<and> v_ratio = Some vr \<and> 0 < vr \<and>
    (kind = isochoric \<longrightarrow> p_ratio = Some pr \<and> 0 < pr) \<longrightarrow>
     (\<exists>r T2 P2 v2 W.
          ideal_gas_process gas kind v_ratio p_ratio n = Inr r \<and>
          gr_T2 r = Fin T2 \<and> gr_P2 r = Fin P2 \<and> gr_v2 r = Fin v2 \<and> gr_W r = Fin W \<and>
          (kind = isochoric \<longrightarrow>
             v2 = g_v gas \<and> P2 = g_P gas * pr \<and> T2 = g_T gas * pr \<and> W = 0) \<and>
          (kind = isobaric \<longrightarrow>
             v2 = g_v gas * vr \<and> P2 = g_P gas \<and> T2 = g_T gas * vr \<and>
             W = g_P gas * (v2 - g_v gas)) \<and>
          (kind = isothermal \<longrightarrow>
             v2 = g_v gas * vr \<and> P2 = g_P gas * g_v gas / v2 \<and> T2 = g_T gas \<and>
             W = g_R gas * g_T gas * ln (v2 / g_v gas)) \<and>
          (kind = adiabatic \<longrightarrow>
             v2 = g_v gas * vr \<and> P2 = g_P gas * (g_v gas / v2) powr g_k gas \<and>
             T2 = g_T gas * (g_v gas / v2) powr (g_k gas - 1) \<and>
             W = (if isclose (g_k gas) 1 then g_R gas * g_T gas * ln (v2 / g_v gas)
                  else (P2 * v2 - g_P gas * g_v gas) / (1 - g_k gas))) \<and>
          (kind = polytropic \<longrightarrow>
             (\<exists>m. m = (case n of Some m \<Rightarrow> m | None \<Rightarrow> 1) \<and>
                v2 = g_v gas * vr \<and> P2 = g_P gas * (g_v gas / v2) powr m \<and>
                T2 = g_T gas * (g_v gas / v2) powr (m - 1) \<and>
                W = (if isclose m 1 then g_R gas * g_T gas * ln (v2 / g_v gas)
                     else (P2 * v2 - g_P gas * g_v gas) / (1 - m)))) \<and>
          gr_delta_u r = Fin (g_cv gas * T2 - g_cv gas * g_T gas) \<and>
          gr_Q r = Fin (g_cv gas * T2 - g_cv gas * g_T gas + W) \<and>
          gr_delta_s r = Fin (g_cp gas * ln (T2 / g_T gas) - g_R gas * ln (P2 / g_P gas)) \<and>
          gr_s1 r = Fin (g_cp gas * ln (g_T gas) - g_R gas * ln (g_P gas)) \<and>
          gr_s2 r = Fin (g_cp gas * ln (g_T gas) - g_R gas * ln (g_P gas) +
                         (g_cp gas * ln (T2 / g_T gas) - g_R gas * ln (P2 / g_P gas)))))"
  (is "(\<forall>r. ?returns r \<longrightarrow> ?every r) \<and> (?positive \<longrightarrow> ?real)")
proof (intro conjI allI impI)
  fix r
  assume assms: "?returns r"
  from assms obtain P2 T2 v2 e W where
    ss: "second_state kind (g_P gas) (g_v gas) (g_T gas) (g_k gas) v_ratio p_ratio n =
       Inr (P2, T2, v2, e)"
    and bw: "boundary_work kind (g_R gas) (g_P gas) (g_v gas) (g_T gas) P2 v2 e = Inr W"
    and r: "gr_T1 r = Fin (g_T gas)" "gr_P1 r = Fin (g_P gas)" "gr_v1 r = Fin (g_v gas)"
      "gr_T2 r = T2" "gr_P2 r = P2" "gr_v2 r = Fin v2" "gr_W r = W"
      "gr_delta_u r = fsub (fmul (Fin (g_cv gas)) T2) (Fin (g_cv gas * g_T gas))"
      "gr_Q r = fadd (gr_delta_u r) W"
      "gr_delta_s r = fsub (fmul (Fin (g_cp gas)) (np_log (fdiv T2 (g_T gas))))
                         (fmul (Fin (g_R gas)) (np_log (fdiv P2 (g_P gas))))"
      "gr_s1 r = fsub (fmul (Fin (g_cp gas)) (np_log (Fin (g_T gas))))
                    (fmul (Fin (g_R gas)) (np_log (Fin (g_P gas))))"
      "gr_s2 r = fadd (gr_s1 r) (gr_delta_s r)"
    by (rule ideal_gas_process_returns)
  from second_state_returns[OF ss] obtain vr where vr: "v_ratio = Some vr"
    and st: "kind = isochoric \<longrightarrow>
        v2 = g_v gas \<and>
        (\<exists>pr. p_ratio = Some pr \<and> P2 = Fin (g_P gas * pr) \<and> T2 = Fin (g_T gas * pr))"
      "kind = isobaric \<longrightarrow>
        v2 = g_v gas * vr \<and> P2 = Fin (g_P gas) \<and> T2 = Fin (g_T gas * vr) \<and> e = Some 0"
      "kind = isothermal \<longrightarrow>
        v2 = g_v gas * vr \<and> v2 \<noteq> 0 \<and> P2 = Fin (g_P gas * (g_v gas / v2)) \<and>
        T2 = Fin (g_T gas) \<and> e = Some 1"
      "kind = adiabatic \<longrightarrow>
        v2 = g_v gas * vr \<and> v2 \<noteq> 0 \<and> e = Some (g_k gas) \<and>
        (\<exists>a b. py_pow (g_v gas / v2) (g_k gas) = Inr a \<and>
           py_pow (g_v gas / v2) (g_k gas - 1) = Inr b \<and>
           P2 = fmul (Fin (g_P gas)) a \<and> T2 = fmul (Fin (g_T gas)) b)"
      "kind = polytropic \<longrightarrow>
        v2 = g_v gas * vr \<and> v2 \<noteq> 0 \<and> e = Some (case n of Some m \<Rightarrow> m | None \<Rightarrow> 1) \<and>
        (\<exists>a b. py_pow (g_v gas / v2) (case n of Some m \<Rightarrow> m | None \<Rightarrow> 1) = Inr a \<and>
           py_pow (g_v gas / v2) ((case n of Some m \<Rightarrow> m | None \<Rightarrow> 1) - 1) = Inr b \<and>
           P2 = fmul (Fin (g_P gas)) a \<and> T2 = fmul (Fin (g_T gas)) b)"
    by blast
  have W0: "kind = isochoric \<longrightarrow> W = Fin 0"
    using bw by (auto simp: boundary_work_isochoric)
  have W1: "kind = isobaric \<longrightarrow> W = Fin (g_P gas * (v2 - g_v gas))"
    using bw st(2) boundary_work_returns by blast
  have W2: "kind = isothermal \<longrightarrow>
      W = fmul (Fin (g_R gas * g_T gas)) (np_log (Fin (v2 / g_v gas)))"
    using bw st(3) boundary_work_returns by blast
  have W3: "kind = adiabatic \<longrightarrow>
      W = (if isclose (g_k gas) 1
           then fmul (Fin (g_R gas * g_T gas)) (np_log (Fin (v2 / g_v gas)))
           else fdiv (fsub (fmul P2 (Fin v2)) (Fin (g_P gas * g_v gas))) (1 - g_k gas))"
  proof
    assume k: "kind = adiabatic"
    with st(4) have e: "e = Some (g_k gas)" by simp
    from boundary_work_returns[OF bw[unfolded e]] k show
      "W = (if isclose (g_k gas) 1
           then fmul (Fin (g_R gas * g_T gas)) (np_log (Fin (v2 / g_v gas)))
           else fdiv (fsub (fmul P2 (Fin v2)) (Fin (g_P gas * g_v gas))) (1 - g_k gas))"
      by (simp split: if_splits)
  qed
  have W4: "kind = polytropic \<longrightarrow>
      W = (if isclose (case n of Some m \<Rightarrow> m | None \<Rightarrow> 1) 1
           then fmul (Fin (g_R gas * g_T gas)) (np_log (Fin (v2 / g_v gas)))
           else fdiv (fsub (fmul P2 (Fin v2)) (Fin (g_P gas * g_v gas)))
                  (1 - (case n of Some m \<Rightarrow> m | None \<Rightarrow> 1)))"
  proof
    assume k: "kind = polytropic"
    with st(5) have e: "e = Some (case n of Some m \<Rightarrow> m | None \<Rightarrow> 1)" by simp
    from boundary_work_returns[OF bw[unfolded e]] k show
      "W = (if isclose (case n of Some m \<Rightarrow> m | None \<Rightarrow> 1) 1
           then fmul (Fin (g_R gas * g_T gas)) (np_log (Fin (v2 / g_v gas)))
           else fdiv (fsub (fmul P2 (Fin v2)) (Fin (g_P gas * g_v gas)))
                  (1 - (case n of Some m \<Rightarrow> m | None \<Rightarrow> 1)))"
      by (simp split: if_splits)
  qed
  show "?every r"
    unfolding r(4) r(5) r(7) r(8) r(9) r(10) r(11) r(12)
    apply (rule exI[of _ vr], rule exI[of _ v2])
    apply (intro conjI)
    subgoal by (rule vr)
    subgoal by (rule r)
    subgoal by (rule r)
    subgoal by (rule r)
    subgoal by (rule r)
    subgoal using st(1) W0 by blast
    subgoal using st(2) W1 by blast
    subgoal using st(3) W2 by blast
    subgoal using st(4) W3 by blast
    subgoal using st(5) W4 by blast
    subgoal by (rule refl)
    subgoal by (rule refl)
    subgoal by (rule refl)
    subgoal by (rule refl)
    subgoal by (rule refl)
    done
next
  assume positive: ?positive
  then have assms: "0 < g_T gas" "0 < g_P gas" "0 < g_v gas" "0 < vr"
    "kind = isochoric \<longrightarrow> p_ratio = Some pr \<and> 0 < pr"
    and vr: "v_ratio = Some vr"
    by simp_all
  have v2: "0 < g_v gas * vr" using assms by simp
  have pr: "kind = isochoric \<longrightarrow> p_ratio = Some pr" using assms(5) by simp
  note ss = second_state_positive[OF assms(1,2,3,4) pr, of "g_k gas" n]
  note bw = boundary_work_positive[OF assms(3) v2]
  show ?real
  proof (cases kind)
    case isochoric
    then have "0 < pr" using assms(5) by simp
    then show ?thesis using assms(1-4) ss unfolding isochoric vr
      by (simp add: ideal_gas_process_def boundary_work_isochoric
          bind_err_def py_fdiv_def fadd_def fsub_def fmul_def Let_def)
  next
    case isobaric
    show ?thesis using assms(1-4) ss bw unfolding isobaric vr
      by (simp add: ideal_gas_process_def
          bind_err_def py_fdiv_def fadd_def fsub_def fmul_def Let_def)
  next
    case isothermal
    show ?thesis using assms(1-4) ss bw unfolding isothermal vr
      by (simp add: ideal_gas_process_def
          bind_err_def py_fdiv_def fadd_def fsub_def fmul_def Let_def)
  next
    case adiabatic
    show ?thesis using assms(1-4) ss bw unfolding adiabatic vr
      by (simp add: ideal_gas_process_def
          bind_err_def py_fdiv_def fadd_def fsub_def fmul_def Let_def)
  next
    case polytropic
    show ?thesis using assms(1-4) ss bw unfolding polytropic vr
      by (simp add: ideal_gas_process_def
          bind_err_def py_fdiv_def fadd_def fsub_def fmul_def Let_def)
  qed
qed

lemma near_unit_gas_stored:
  "submit_gas sample_df iapws_unavailable empty_store (custom_request 100 1 (131073 / 131072) 1) =
     (Success (), empty_store\<lparr>latest_submission := Some (Gas_submission near_unit_gas)\<rparr>)"
proof -
  have "rint (3125 / 4096) = 1" "rint (409603125 / 4096) = 100001"
    by (simp_all add: rint_def Let_def)
  then show ?thesis
    by (simp add: submit_gas_def submit_ideal_gas_def custom_request_def py_lower_def
        gas_constants_def near_unit_gas_def py_round_def Let_def)
qed

lemma exp_minus_gt:
  fixes t :: real
  assumes "0 < t"
  shows "1 - t < exp (- t)"
proof -
  have "ln (exp (- t)) \<le> exp (- t) - 1" by (rule ln_le_minus_one) simp
  then have le: "1 - t \<le> exp (- t)" by simp
  have "exp (- t) \<noteq> 1 - t"
  proof
    assume eq: "exp (- t) = 1 - t"
    have "ln (exp (- t)) = - t" by simp
    also have "- t = exp (- t) - 1" using eq by simp
    finally have "exp (- t) = 1" by (intro ln_eq_minus_one) simp_all
    then show False using assms by simp
  qed
  with le show ?thesis by simp
qed

lemma near_unit_adiabatic_work:
  "(100 * (1 / 2) powr (100001 / 100000) * 2 - 100 * 1) / (1 - 100001 / (100000::real)) <
     1 / 100000 * 13107200 * ln 2"
proof -
  let ?t = "ln 2 / (100000::real)"
  have t: "0 < ?t" by simp
  have a: "(1 / 2) powr (1 / (100000::real)) = exp (- ?t)"
    by (simp add: powr_def ln_div)
  have split: "(1 / 2) powr (100001 / (100000::real)) = (1 / 2) * (1 / 2) powr (1 / 100000)"
  proof -
    have "(100001 / (100000::real)) = 1 + 1 / 100000" by simp
    then have "(1 / 2) powr (100001 / (100000::real)) = (1 / 2) powr (1 + 1 / (100000::real))"
      by simp
    also have "\<dots> = (1 / 2) powr 1 * (1 / 2) powr (1 / (100000::real))"
      by (rule powr_add)
    finally show ?thesis by simp
  qed
  have rhs: "(100 * (1 / 2) powr (100001 / 100000) * 2 - 100 * 1) / (1 - 100001 / (100000::real)) =
      10000000 * (1 - exp (- ?t))"
    unfolding split a by (simp add: field_simps)
  have "1 - exp (- ?t) < ?t" using exp_minus_gt[OF t] by simp
  then have "10000000 * (1 - exp (- ?t)) < 10000000 * ?t" by simp
  then have "10000000 * (1 - exp (- ?t)) < 100 * ln 2" by simp
  also have "100 * ln 2 < 1 / 100000 * 13107200 * ln (2::real)" by simp
  finally show ?thesis unfolding rhs .
qed

text \<open>
  The adiabatic formula \<open>(P2 * v2 - P1 * v1) / (1 - k)\<close> is not what the code computes
  for the custom gas with \<open>cp = 1 + 2^-17\<close> and \<open>cv = 1\<close> at 100 kPa and 1 m3/kg, which
  \<open>submit_gas\<close> accepts and stores with \<open>k = 1.00001\<close>, \<open>R = 0.00001\<close> and
  \<open>T = 13107200\<close>: the request for the adiabatic process with volume ratio 2 is
  served, and its work is \<open>R * T1 * ln 2\<close>.
\<close>

theorem ideal_gas_process_formulas_counterexample:
  "latest_submission (snd (submit_gas sample_df iapws_unavailable empty_store
       (custom_request 100 1 (131073 / 131072) 1))) = Some (Gas_submission near_unit_gas) \<and>
   \<not> isl (ideal_gas_process near_unit_gas adiabatic (Some 2) None None) \<and>
   get_ideal_gas_results
       (snd (submit_gas sample_df iapws_unavailable empty_store
          (custom_request 100 1 (131073 / 131072) 1)))
       \<lparr>gp_process = ''Adiabatic (n=k)'', gp_gas_name = ''custom'', gp_v_ratio = Some 2,
        gp_p_ratio = None, gp_n_value = None\<rparr> =
     Success (round_gas_result
       (projr (ideal_gas_process near_unit_gas adiabatic (Some 2) None None))) \<and>
   gr_W (projr (ideal_gas_process near_unit_gas adiabatic (Some 2) None None)) =
     Fin (g_R near_unit_gas * g_T near_unit_gas * ln 2) \<and>
   gr_W (projr (ideal_gas_process near_unit_gas adiabatic (Some 2) None None)) \<noteq>
     fdiv (fsub (fmul (gr_P2 (projr (ideal_gas_process near_unit_gas adiabatic (Some 2) None None)))
                      (gr_v2 (projr (ideal_gas_process near_unit_gas adiabatic (Some 2) None None))))
                (Fin (g_P near_unit_gas * g_v near_unit_gas)))
          (1 - g_k near_unit_gas)"
proof -
  have close: "isclose (100001 / 100000) 1" by (simp add: isclose_def)
  have W: "gr_W (projr (ideal_gas_process near_unit_gas adiabatic (Some 2) None None)) =
      Fin (1 / 100000 * 13107200 * ln 2)"
    using close
    by (simp add: ideal_gas_process_def second_state_def boundary_work_def near_unit_gas_def
        bind_err_def py_div_def py_pow_def py_fdiv_def fmul_def fsub_def fadd_def Let_def)
  have P2: "gr_P2 (projr (ideal_gas_process near_unit_gas adiabatic (Some 2) None None)) =
      Fin (100 * (1 / 2) powr (100001 / 100000))"
    using close
    by (simp add: ideal_gas_process_def second_state_def boundary_work_def near_unit_gas_def
        bind_err_def py_div_def py_pow_def py_fdiv_def fmul_def fsub_def fadd_def Let_def)
  have v2: "gr_v2 (projr (ideal_gas_process near_unit_gas adiabatic (Some 2) None None)) = Fin 2"
    using close
    by (simp add: ideal_gas_process_def second_state_def boundary_work_def near_unit_gas_def
        bind_err_def py_div_def py_pow_def py_fdiv_def fmul_def fsub_def fadd_def Let_def)
  have returns: "\<not> isl (ideal_gas_process near_unit_gas adiabatic (Some 2) None None)"
    using close
    by (simp add: ideal_gas_process_def second_state_def boundary_work_def near_unit_gas_def
        bind_err_def py_div_def py_pow_def py_fdiv_def fmul_def fsub_def fadd_def Let_def)
  have gas: "g_P near_unit_gas = 100" "g_v near_unit_gas = 1"
    "g_k near_unit_gas = 100001 / 100000" "g_R near_unit_gas = 1 / 100000"
    "g_T near_unit_gas = 13107200"
    by (simp_all add: near_unit_gas_def)
  have stored: "latest_submission (snd (submit_gas sample_df iapws_unavailable empty_store
       (custom_request 100 1 (131073 / 131072) 1))) = Some (Gas_submission near_unit_gas)"
    by (simp add: near_unit_gas_stored)
  have T2: "gr_T2 (projr (ideal_gas_process near_unit_gas adiabatic (Some 2) None None)) =
      Fin (13107200 * (1 / 2) powr (100001 / 100000 - 1))"
    using close
    by (simp add: ideal_gas_process_def second_state_def boundary_work_def near_unit_gas_def
        bind_err_def py_div_def py_pow_def py_fdiv_def fmul_def fsub_def fadd_def Let_def)
  have served: "get_ideal_gas_results
       (snd (submit_gas sample_df iapws_unavailable empty_store
          (custom_request 100 1 (131073 / 131072) 1)))
       \<lparr>gp_process = ''Adiabatic (n=k)'', gp_gas_name = ''custom'', gp_v_ratio = Some 2,
        gp_p_ratio = None, gp_n_value = None\<rparr> =
     Success (round_gas_result
       (projr (ideal_gas_process near_unit_gas adiabatic (Some 2) None None)))"
  proof (rule get_ideal_gas_results_success[where kind = adiabatic and gas = near_unit_gas])
    show "latest_submission (snd (submit_gas sample_df iapws_unavailable empty_store
        (custom_request 100 1 (131073 / 131072) 1))) = Some (Gas_submission near_unit_gas)"
      by (rule stored)
    show "PROCESS_MAP (gp_process \<lparr>gp_process = ''Adiabatic (n=k)'', gp_gas_name = ''custom'',
        gp_v_ratio = Some 2, gp_p_ratio = None, gp_n_value = None\<rparr>) = Some adiabatic"
      by (simp add: PROCESS_MAP_def)
    show "ideal_gas_process near_unit_gas adiabatic
        (gp_v_ratio \<lparr>gp_process = ''Adiabatic (n=k)'', gp_gas_name = ''custom'',
           gp_v_ratio = Some 2, gp_p_ratio = None, gp_n_value = None\<rparr>)
        (gp_p_ratio \<lparr>gp_process = ''Adiabatic (n=k)'', gp_gas_name = ''custom'',
           gp_v_ratio = Some 2, gp_p_ratio = None, gp_n_value = None\<rparr>)
        (gp_n_value \<lparr>gp_process = ''Adiabatic (n=k)'', gp_gas_name = ''custom'',
           gp_v_ratio = Some 2, gp_p_ratio = None, gp_n_value = None\<rparr>) =
        Inr (projr (ideal_gas_process near_unit_gas adiabatic (Some 2) None None))"
      using returns by (cases "ideal_gas_process near_unit_gas adiabatic (Some 2) None None") simp_all
    show "adiabatic \<noteq> polytropic \<or>
        gp_n_value \<lparr>gp_process = ''Adiabatic (n=k)'', gp_gas_name = ''custom'',
           gp_v_ratio = Some 2, gp_p_ratio = None, gp_n_value = None\<rparr> \<noteq> None"
      by simp
    show "gr_T2 (projr (ideal_gas_process near_unit_gas adiabatic (Some 2) None None)) \<noteq> Cplx"
      unfolding T2 by simp
    show "gr_P2 (projr (ideal_gas_process near_unit_gas adiabatic (Some 2) None None)) \<noteq> Cplx"
      unfolding P2 by simp
  qed
  have formula: "fdiv (fsub (fmul (Fin (100 * (1 / 2) powr (100001 / 100000))) (Fin 2))
                       (Fin (100 * 1))) (1 - 100001 / 100000) =
      Fin ((100 * (1 / 2) powr (100001 / 100000) * 2 - 100 * 1) / (1 - 100001 / 100000))"
    by (simp only: fmul_def fsub_def lift2.simps fdiv.simps)
  have differ: "Fin (1 / 100000 * 13107200 * ln 2) \<noteq>
      Fin ((100 * (1 / 2) powr (100001 / 100000) * 2 - 100 * 1) / (1 - 100001 / 100000))"
    using near_unit_adiabatic_work by (simp only: fval.inject)
  show ?thesis
    unfolding W P2 v2 gas formula
    using differ returns stored served
    by (intro conjI refl)
qed

lemma sample_air_stored:
  "submit_gas sample_df iapws_unavailable empty_store
     \<lparr>rq_gas_name = Some ''Air'', rq_T = None, rq_P = Some 100, rq_x = None,
      rq_v = Some (861 / 1000), rq_cp = None, rq_cv = None\<rparr> =
     (Success (), empty_store\<lparr>latest_submission := Some (Gas_submission sample_air)\<rparr>)"
  by (simp add: submit_gas_def submit_ideal_gas_def py_lower_def predefined_gases_def
      gas_constants_def sample_air_def py_round_def Let_def)


theorem ideal_gas_process_formulas_witness:
  "0 < g_T sample_air \<and> 0 < g_P sample_air \<and> 0 < g_v sample_air \<and> (0::real) < 2 \<and>
   (\<exists>r. ideal_gas_process sample_air isothermal (Some 2) None None = Inr r \<and>
        gr_T1 r = Fin 300 \<and> gr_T2 r = Fin 300 \<and> gr_P2 r = Fin 50 \<and> gr_v2 r = Fin (861 / 500) \<and>
        gr_W r = Fin (287 / 1000 * 300 * ln 2) \<and> gr_Q r = gr_W r)"
proof -
  have pos: "0 < g_T sample_air" "0 < g_P sample_air" "0 < g_v sample_air"
    by (simp_all add: sample_air_def)
  note formulas = ideal_gas_process_formulas [of sample_air isothermal "Some 2" None None 2 0]
  from formulas pos obtain r T2 P2 v2 W where
    r: "ideal_gas_process sample_air isothermal (Some 2) None None = Inr r"
    "gr_T2 r = Fin T2" "gr_P2 r = Fin P2" "gr_v2 r = Fin v2" "gr_W r = Fin W"
    "v2 = g_v sample_air * 2" "P2 = g_P sample_air * g_v sample_air / v2"
    "T2 = g_T sample_air" "W = g_R sample_air * g_T sample_air * ln (v2 / g_v sample_air)"
    "gr_Q r = Fin (g_cv sample_air * T2 - g_cv sample_air * g_T sample_air + W)"
    by auto
  from formulas r(1) have T1: "gr_T1 r = Fin (g_T sample_air)"
    by blast
  have v2: "v2 = 861 / 500"
    using r(6) by (simp add: sample_air_def)
  have "gr_T1 r = Fin 300" "gr_T2 r = Fin 300" "gr_P2 r = Fin 50" "gr_v2 r = Fin (861 / 500)"
    "gr_W r = Fin (287 / 1000 * 300 * ln 2)" "gr_Q r = gr_W r"
    using T1 r(2-5,7-10) unfolding v2 by (simp_all add: sample_air_def)
  with r(1) pos show ?thesis by simp
qed

end
